theory Spec2Isabelle
  imports Main "HOL-Library.Word"
begin

section \<open>Values\<close>

text \<open>
  The analyser walks a tree that nbtlib decoded from the file. Every nbtlib tag class is a
  subclass of a Python builtin (\<open>Compound\<close> of \<open>dict\<close>, \<open>List\<close> of \<open>list\<close>,
  \<open>String\<close> of \<open>str\<close>, \<open>Byte\<close>/\<open>Short\<close>/\<open>Int\<close>/\<open>Long\<close> of \<open>int\<close>,
  \<open>Float\<close>/\<open>Double\<close> of \<open>float\<close>, \<open>ByteArray\<close>/\<open>IntArray\<close>/\<open>LongArray\<close> of
  \<open>numpy.ndarray\<close>), and the source only ever looks at that builtin behaviour
  (\<open>isinstance(v, dict)\<close>, \<open>hasattr(v, '__len__')\<close>, \<open>hasattr(v, 'shape')\<close>).
  One datatype therefore stands for the tags and for the plain Python values the
  analyser puts into its result dictionary. A dictionary is an association list in
  insertion order; a float is its 64-bit pattern; \<open>PyNone\<close> is Python's \<open>None\<close>.
\<close>

datatype node =
    Compound "(string \<times> node) list"
  | NList "node list"
  | NArray "int list"
  | NString string
  | NInt int
  | NFloat "64 word"
  | PyNone

type_synonym dict = "(string \<times> node) list"

datatype exn =
    TypeError
  | AttributeError
  | KeyError
  | IndexError
  | ValueError
  | LibraryError string

text \<open>
  What the analyser gets from outside the repository (gzip, nbtlib, numpy, datetime, the
  interpreter's own \<open>str\<close> and \<open>*\<close> on operands other than integers) is a parameter of
  the model: every function below takes a \<open>lib\<close>, and the theorems hold for each one.
\<close>

record lib =
  str_of :: "node \<Rightarrow> exn + string"
  mul_other :: "node \<Rightarrow> node \<Rightarrow> exn + node"
  array_in :: "string \<Rightarrow> int list \<Rightarrow> exn + bool"
  array_eq :: "int list \<Rightarrow> string \<Rightarrow> exn + bool"
  format_date :: "node \<Rightarrow> exn + string"
  gunzip :: "8 word list \<Rightarrow> exn + 8 word list"
  parse :: "8 word list \<Rightarrow> exn + (dict \<times> string)"
  exn_text :: "exn \<Rightarrow> string"
  traceback :: "exn \<Rightarrow> string"

section \<open>Python primitives\<close>

text \<open>An expression that may raise is a sum; \<open>andthen\<close> evaluates the next one if it did not.\<close>

definition andthen :: "exn + 'a \<Rightarrow> ('a \<Rightarrow> exn + 'b) \<Rightarrow> exn + 'b" where
  "andthen x f = (case x of Inl e \<Rightarrow> Inl e | Inr v \<Rightarrow> f v)"

fun dict_set :: "string \<Rightarrow> node \<Rightarrow> dict \<Rightarrow> dict" where
  "dict_set k v [] = [(k, v)]"
| "dict_set k v (p # ps) = (if fst p = k then (k, v) # ps else p # dict_set k v ps)"

definition keys :: "dict \<Rightarrow> string list" where
  "keys d = map fst d"

definition has_key :: "dict \<Rightarrow> string \<Rightarrow> bool" where
  "has_key d k = (k \<in> set (keys d))"

definition is_dict :: "node \<Rightarrow> bool" where
  "is_dict v = (case v of Compound _ \<Rightarrow> True | _ \<Rightarrow> False)"

definition is_number :: "node \<Rightarrow> bool" where
  "is_number v = (case v of NInt _ \<Rightarrow> True | NFloat _ \<Rightarrow> True | _ \<Rightarrow> False)"

definition digit_char :: "nat \<Rightarrow> char" where
  "digit_char d = ''0123456789'' ! d"

function dec_nat :: "nat \<Rightarrow> string" where
  "dec_nat n = (if n < 10 then [digit_char n] else dec_nat (n div 10) @ [digit_char (n mod 10)])"
  by pat_completeness auto
termination
  by (relation "measure (\<lambda>n. n)") auto

declare dec_nat.simps [simp del]

definition dec :: "int \<Rightarrow> string" where
  "dec i = (if i < 0 then CHR ''-'' # dec_nat (nat (- i)) else dec_nat (nat i))"

text \<open>
  Modelled from the spec: nbtlib's \<open>__str__\<close> for its integer and string tags is not in
  the repository. The spec says that numbers and text both become their plain string
  form, a number its decimal form. For every other kind of node the rendering is the
  library's (\<open>str_of\<close>).
\<close>

definition py_str :: "lib \<Rightarrow> node \<Rightarrow> exn + string" where
  "py_str L v =
     (case v of
        NInt i \<Rightarrow> Inr (dec i)
      | NString s \<Rightarrow> Inr s
      | PyNone \<Rightarrow> Inr ''None''
      | _ \<Rightarrow> str_of L v)"

text \<open>
  \<open>bool(v)\<close>. nbtlib's \<open>Array\<close> defines \<open>__bool__\<close> as \<open>all(self)\<close>: an array is true when
  none of its elements is zero, the empty array included. No kind of node raises.
\<close>

definition py_truth :: "node \<Rightarrow> exn + bool" where
  "py_truth v =
     (case v of
        Compound d \<Rightarrow> Inr (d \<noteq> [])
      | NList xs \<Rightarrow> Inr (xs \<noteq> [])
      | NArray a \<Rightarrow> Inr (list_all (\<lambda>x. x \<noteq> 0) a)
      | NString s \<Rightarrow> Inr (s \<noteq> [])
      | NInt i \<Rightarrow> Inr (i \<noteq> 0)
      | NFloat w \<Rightarrow> Inr (take_bit 63 w \<noteq> 0)
      | PyNone \<Rightarrow> Inr False)"

definition has_len :: "node \<Rightarrow> bool" where
  "has_len v = (case v of NInt _ \<Rightarrow> False | NFloat _ \<Rightarrow> False | PyNone \<Rightarrow> False | _ \<Rightarrow> True)"

definition py_len :: "node \<Rightarrow> exn + nat" where
  "py_len v =
     (case v of
        Compound d \<Rightarrow> Inr (length d)
      | NList xs \<Rightarrow> Inr (length xs)
      | NArray a \<Rightarrow> Inr (length a)
      | NString s \<Rightarrow> Inr (length s)
      | _ \<Rightarrow> Inl TypeError)"

text \<open>The \<open>shape\<close> attribute: only arrays have one, and nbtlib's arrays have one axis.\<close>

definition py_shape :: "node \<Rightarrow> nat list option" where
  "py_shape v = (case v of NArray a \<Rightarrow> Some [length a] | _ \<Rightarrow> None)"

definition py_size :: "node \<Rightarrow> exn + nat" where
  "py_size v = (case py_shape v of Some ds \<Rightarrow> Inr (prod_list ds) | None \<Rightarrow> Inl AttributeError)"

text \<open>\<open>obj.get(key, default)\<close>, \<open>obj[key]\<close>, \<open>obj.items()\<close>, \<open>obj.keys()\<close> for a string key.\<close>

definition py_get :: "node \<Rightarrow> string \<Rightarrow> node \<Rightarrow> exn + node" where
  "py_get obj k dflt =
     (case obj of
        Compound d \<Rightarrow> Inr (case map_of d k of Some v \<Rightarrow> v | None \<Rightarrow> dflt)
      | _ \<Rightarrow> Inl AttributeError)"

definition py_getitem :: "node \<Rightarrow> string \<Rightarrow> exn + node" where
  "py_getitem obj k =
     (case obj of
        Compound d \<Rightarrow> (case map_of d k of Some v \<Rightarrow> Inr v | None \<Rightarrow> Inl KeyError)
      | NArray _ \<Rightarrow> Inl IndexError
      | _ \<Rightarrow> Inl TypeError)"

definition py_items :: "node \<Rightarrow> exn + dict" where
  "py_items obj = (case obj of Compound d \<Rightarrow> Inr d | _ \<Rightarrow> Inl AttributeError)"

definition py_keys :: "node \<Rightarrow> exn + string list" where
  "py_keys obj = (case obj of Compound d \<Rightarrow> Inr (keys d) | _ \<Rightarrow> Inl AttributeError)"

text \<open>
  \<open>key in obj\<close>: key membership for a dict, substring for a string, element equality
  for a list; an integer or a float is not a container.
\<close>

fun substring :: "string \<Rightarrow> string \<Rightarrow> bool" where
  "substring k [] = (k = [])"
| "substring k (c # cs) = (take (length k) (c # cs) = k \<or> substring k cs)"

definition elem_eq :: "lib \<Rightarrow> node \<Rightarrow> string \<Rightarrow> exn + bool" where
  "elem_eq L x k =
     (case x of NString s \<Rightarrow> Inr (s = k) | NArray a \<Rightarrow> array_eq L a k | _ \<Rightarrow> Inr False)"

fun list_in :: "lib \<Rightarrow> string \<Rightarrow> node list \<Rightarrow> exn + bool" where
  "list_in L k [] = Inr False"
| "list_in L k (x # xs) =
     (case elem_eq L x k of
        Inl e \<Rightarrow> Inl e
      | Inr b \<Rightarrow> if b then Inr True else list_in L k xs)"

definition py_in :: "lib \<Rightarrow> string \<Rightarrow> node \<Rightarrow> exn + bool" where
  "py_in L k obj =
     (case obj of
        Compound d \<Rightarrow> Inr (has_key d k)
      | NList xs \<Rightarrow> list_in L k xs
      | NArray a \<Rightarrow> array_in L k a
      | NString s \<Rightarrow> Inr (substring k s)
      | _ \<Rightarrow> Inl TypeError)"

text \<open>\<open>a * b\<close>: integer multiplication is Python's own and unbounded.\<close>

definition py_mul :: "lib \<Rightarrow> node \<Rightarrow> node \<Rightarrow> exn + node" where
  "py_mul L a b =
     (case a of
        NInt x \<Rightarrow> (case b of NInt y \<Rightarrow> Inr (NInt (x * y)) | _ \<Rightarrow> mul_other L a b)
      | _ \<Rightarrow> mul_other L a b)"

fun join :: "string \<Rightarrow> string list \<Rightarrow> string" where
  "join sep [] = []"
| "join sep [s] = s"
| "join sep (s # t # ts) = s @ sep @ join sep (t # ts)"

definition startswith :: "string \<Rightarrow> string \<Rightarrow> bool" where
  "startswith s p = (take (length p) s = p)"

section \<open>The helpers of schemInfoPy.py\<close>

definition safe_to_string :: "lib \<Rightarrow> node \<Rightarrow> exn + string" where
  "safe_to_string L v = (if is_number v then py_str L v else py_str L v)"

text \<open>
  \<open>format_coordinates\<close>: the truth test and the \<open>isinstance\<close> test come before the
  \<open>try\<close>; the three \<open>get\<close> calls and conversions are inside it.
\<close>

definition axis :: "lib \<Rightarrow> node \<Rightarrow> string \<Rightarrow> exn + string" where
  "axis L obj k = andthen (py_get obj k (NString ''?'')) (safe_to_string L)"

definition coordinates_body :: "lib \<Rightarrow> node \<Rightarrow> exn + string" where
  "coordinates_body L obj =
     andthen (axis L obj ''x'') (\<lambda>x.
     andthen (axis L obj ''y'') (\<lambda>y.
     andthen (axis L obj ''z'') (\<lambda>z.
       Inr (x @ '' x '' @ y @ '' x '' @ z))))"

definition format_coordinates :: "lib \<Rightarrow> node \<Rightarrow> exn + string" where
  "format_coordinates L obj =
     (case py_truth obj of
        Inl e \<Rightarrow> Inl e
      | Inr t \<Rightarrow>
          if \<not> t \<or> \<not> is_dict obj then Inr ''unknown''
          else (case coordinates_body L obj of
                  Inr s \<Rightarrow> Inr s
                | Inl e \<Rightarrow> Inr (''error parsing coordinates: '' @ exn_text L e)))"

text \<open>
  \<open>format_timestamp\<close>: the division by 1000, \<open>fromtimestamp\<close> and \<open>strftime\<close> are the
  library's (\<open>format_date\<close>); the handler renders the raw value again.
\<close>

definition timestamp_body :: "lib \<Rightarrow> node \<Rightarrow> exn + string" where
  "timestamp_body L t =
     (if is_number t then
        andthen (format_date L t) (\<lambda>d.
        andthen (py_str L t) (\<lambda>s.
          Inr (s @ '' ('' @ d @ '')'')))
      else safe_to_string L t)"

definition format_timestamp :: "lib \<Rightarrow> node \<Rightarrow> exn + string" where
  "format_timestamp L t =
     (case timestamp_body L t of
        Inr s \<Rightarrow> Inr s
      | Inl e \<Rightarrow>
          (case py_str L t of
             Inl e' \<Rightarrow> Inl e'
           | Inr s \<Rightarrow> Inr (s @ '' (error formatting date: '' @ exn_text L e @ '')'')))"

text \<open>\<open>safe_check\<close>: whatever \<open>key in obj\<close> raises counts as absence.\<close>

definition safe_check :: "lib \<Rightarrow> node \<Rightarrow> string \<Rightarrow> bool" where
  "safe_check L obj k = (case py_in L k obj of Inr b \<Rightarrow> b | Inl _ \<Rightarrow> False)"

section \<open>The analysis state\<close>

text \<open>
  \<open>analyze_schematic\<close> fills two accumulators as it goes, the \<open>result\<close> dictionary and
  the report lines (\<open>output\<close> in the source), and one \<open>try\<close> encloses the whole analysis: what was recorded
  before an exception stays. A piece of the analysis is therefore a function from the
  state to the state reached together with the value computed or the exception raised.
\<close>

record state =
  result :: dict
  report :: "string list"

type_synonym 'a prog = "state \<Rightarrow> (exn + 'a) \<times> state"

definition ret :: "'a \<Rightarrow> 'a prog" where
  "ret x st = (Inr x, st)"

definition of_val :: "exn + 'a \<Rightarrow> 'a prog" where
  "of_val v st = (v, st)"

definition bindp :: "'a prog \<Rightarrow> ('a \<Rightarrow> 'b prog) \<Rightarrow> 'b prog" where
  "bindp m f st = (case m st of (Inl e, st') \<Rightarrow> (Inl e, st') | (Inr x, st') \<Rightarrow> f x st')"

fun steps :: "unit prog list \<Rightarrow> unit prog" where
  "steps [] st = (Inr (), st)"
| "steps (m # ms) st = (case m st of (Inl e, st') \<Rightarrow> (Inl e, st') | (Inr _, st') \<Rightarrow> steps ms st')"

fun for_each :: "('a \<Rightarrow> unit prog) \<Rightarrow> 'a list \<Rightarrow> unit prog" where
  "for_each f [] st = (Inr (), st)"
| "for_each f (x # xs) st =
     (case f x st of (Inl e, st') \<Rightarrow> (Inl e, st') | (Inr _, st') \<Rightarrow> for_each f xs st')"

definition try_catch :: "unit prog \<Rightarrow> (exn \<Rightarrow> unit prog) \<Rightarrow> unit prog" where
  "try_catch m h st = (case m st of (Inl e, st') \<Rightarrow> h e st' | (Inr u, st') \<Rightarrow> (Inr u, st'))"

text \<open>\<open>output.append(line)\<close>, \<open>result[k] = v\<close> and \<open>result[a][k] = v\<close>.\<close>

definition emit :: "string \<Rightarrow> unit prog" where
  "emit line st = (Inr (), st\<lparr>report := report st @ [line]\<rparr>)"

definition put :: "string \<Rightarrow> node \<Rightarrow> unit prog" where
  "put k v st = (Inr (), st\<lparr>result := dict_set k v (result st)\<rparr>)"

definition put_in :: "string \<Rightarrow> string \<Rightarrow> node \<Rightarrow> unit prog" where
  "put_in a k v st =
     (case map_of (result st) a of
        None \<Rightarrow> (Inl KeyError, st)
      | Some (Compound d) \<Rightarrow>
          (Inr (), st\<lparr>result := dict_set a (Compound (dict_set k v d)) (result st)\<rparr>)
      | Some _ \<Rightarrow> (Inl TypeError, st))"

section \<open>Format detection\<close>

definition nested_probe :: "lib \<Rightarrow> node \<Rightarrow> exn + bool" where
  "nested_probe L s =
     (if \<not> safe_check L s ''Blocks'' then Inr False
      else andthen (py_get s ''Blocks'' PyNone) (\<lambda>b.
        if \<not> is_dict b then Inr False
        else andthen (py_get s ''Blocks'' (Compound [])) (\<lambda>b'.
          Inr (safe_check L b' ''Palette''))))"

definition detect_format :: "lib \<Rightarrow> node \<Rightarrow> exn + string" where
  "detect_format L s =
     (if safe_check L s ''Palette'' \<and> safe_check L s ''BlockData'' then Inr ''modern_worldedit''
      else andthen (nested_probe L s) (\<lambda>nested.
        if nested then Inr ''modern_worldedit_nested''
        else if safe_check L s ''BlockData'' \<or> safe_check L s ''blocks'' then Inr ''modern_alternate''
        else if safe_check L s ''Blocks'' \<and> safe_check L s ''Data'' then Inr ''classic_worldedit''
        else if safe_check L s ''Regions'' then Inr ''litematica''
        else Inr ''unknown''))"

section \<open>Regions and dimensions\<close>

definition fmt_axis :: "lib \<Rightarrow> node \<Rightarrow> string \<Rightarrow> exn + string" where
  "fmt_axis L c k = andthen (py_get c k (NString ''?'')) (py_str L)"

definition triple :: "lib \<Rightarrow> node \<Rightarrow> exn + string" where
  "triple L c =
     andthen (fmt_axis L c ''x'') (\<lambda>x.
     andthen (fmt_axis L c ''y'') (\<lambda>y.
     andthen (fmt_axis L c ''z'') (\<lambda>z.
       Inr (x @ '' x '' @ y @ '' x '' @ z))))"

text \<open>
  The four parts of the loop body each take the \<open>region_info\<close> built so far and return
  it, extended or not.
\<close>

definition region_size :: "lib \<Rightarrow> node \<Rightarrow> dict \<Rightarrow> dict prog" where
  "region_size L region info =
     (if safe_check L region ''Size'' then
        bindp (of_val (py_getitem region ''Size'')) (\<lambda>size.
        bindp (of_val (triple L size)) (\<lambda>size_str.
        bindp (emit (''    Size: '' @ size_str)) (\<lambda>_.
        ret (dict_set ''size'' (NString size_str) info))))
      else ret info)"

definition region_position :: "lib \<Rightarrow> node \<Rightarrow> dict \<Rightarrow> dict prog" where
  "region_position L region info =
     (if safe_check L region ''Position'' then
        bindp (of_val (py_getitem region ''Position'')) (\<lambda>pos.
        bindp (of_val (triple L pos)) (\<lambda>pos_str.
        bindp (emit (''    Position: ('' @ pos_str @ '')'')) (\<lambda>_.
        ret (dict_set ''position'' (NString pos_str) info))))
      else ret info)"

definition region_count :: "lib \<Rightarrow> node \<Rightarrow> string \<Rightarrow> string \<Rightarrow> string \<Rightarrow> dict \<Rightarrow> dict prog" where
  "region_count L region src label field info =
     (if safe_check L region src then
        bindp (of_val (py_getitem region src)) (\<lambda>xs.
        bindp (of_val (py_truth xs)) (\<lambda>t.
          if t then
            bindp (of_val (py_len xs)) (\<lambda>n.
            bindp (emit (''    '' @ label @ '': '' @ dec (int n))) (\<lambda>_.
            ret (dict_set field (NInt (int n)) info)))
          else ret info))
      else ret info)"

definition region_info :: "lib \<Rightarrow> node \<Rightarrow> dict prog" where
  "region_info L region =
     bindp (region_size L region []) (\<lambda>i1.
     bindp (region_position L region i1) (\<lambda>i2.
     bindp (region_count L region ''BlockEntities'' ''Block Entities'' ''block_entities_count'' i2) (\<lambda>i3.
     region_count L region ''Entities'' ''Entities'' ''entities_count'' i3)))"

definition region_step :: "lib \<Rightarrow> string \<times> node \<Rightarrow> unit prog" where
  "region_step L item =
     bindp (emit (''  - '' @ fst item @ '':'')) (\<lambda>_.
     bindp (region_info L (snd item)) (\<lambda>info.
     put_in ''regions'' (fst item) (Compound info)))"

definition regions_section :: "lib \<Rightarrow> node \<Rightarrow> unit prog" where
  "regions_section L s =
     steps
       [emit (CHR 0x0A # ''Regions:''),
        put ''regions'' (Compound []),
        bindp (of_val (py_get s ''Regions'' (Compound []))) (\<lambda>regions.
        bindp (of_val (py_items regions)) (\<lambda>items.
          for_each (region_step L) items))]"

text \<open>
  \<open>width * height * length if width and height and length else 0\<close>: the three truth
  tests run left to right and stop at the first falsy operand.
\<close>

definition total_volume :: "lib \<Rightarrow> node \<Rightarrow> node \<Rightarrow> node \<Rightarrow> exn + node" where
  "total_volume L width height len =
     andthen (py_truth width) (\<lambda>tw.
       if \<not> tw then Inr (NInt 0)
       else andthen (py_truth height) (\<lambda>th.
         if \<not> th then Inr (NInt 0)
         else andthen (py_truth len) (\<lambda>tl.
           if \<not> tl then Inr (NInt 0)
           else andthen (py_mul L width height) (\<lambda>wh. py_mul L wh len))))"

definition get2 :: "node \<Rightarrow> string \<Rightarrow> string \<Rightarrow> exn + node" where
  "get2 s upper lower = andthen (py_get s lower (NInt 0)) (\<lambda>d. py_get s upper d)"

definition dimensions_section :: "lib \<Rightarrow> node \<Rightarrow> unit prog" where
  "dimensions_section L s =
     bindp (of_val (get2 s ''Width'' ''width'')) (\<lambda>width.
     bindp (of_val (get2 s ''Height'' ''height'')) (\<lambda>height.
     bindp (of_val (get2 s ''Length'' ''length'')) (\<lambda>len.
     bindp (of_val (py_str L width)) (\<lambda>ws.
     bindp (of_val (py_str L height)) (\<lambda>hs.
     bindp (of_val (py_str L len)) (\<lambda>ls.
     bindp (emit (''Dimensions: '' @ ws @ '' x '' @ hs @ '' x '' @ ls)) (\<lambda>_.
     bindp (of_val (total_volume L width height len)) (\<lambda>vol.
     bindp (of_val (py_str L vol)) (\<lambda>vs.
     bindp (emit (''Total volume: '' @ vs @ '' blocks'')) (\<lambda>_.
     put ''dimensions''
       (Compound [(''width'', width), (''height'', height), (''length'', len),
                  (''total_volume'', vol)])))))))))))"

section \<open>Block statistics\<close>

text \<open>
  The palette listing has a \<open>try\<close> of its own: an exception ends the listing with an
  error line, and the entries listed so far are kept.
\<close>

fun palette_loop :: "lib \<Rightarrow> dict \<Rightarrow> node list \<Rightarrow> node list prog" where
  "palette_loop L [] acc st = (Inr acc, st)"
| "palette_loop L (item # rest) acc st =
     (case py_str L (snd item) of
        Inl e \<Rightarrow>
          (Inr acc, st\<lparr>report := report st @ [''Error listing block types: '' @ exn_text L e]\<rparr>)
      | Inr id_str \<Rightarrow>
          palette_loop L rest
            (acc @ [Compound [(''name'', NString (fst item)), (''id'', snd item)]])
            (st\<lparr>report := report st @ [''  - '' @ fst item @ '' (ID: '' @ id_str @ '')'']\<rparr>))"

definition list_block_types :: "lib \<Rightarrow> node \<Rightarrow> node list prog" where
  "list_block_types L palette =
     (case py_items palette of
        Inl e \<Rightarrow> bindp (emit (''Error listing block types: '' @ exn_text L e)) (\<lambda>_. ret [])
      | Inr items \<Rightarrow> palette_loop L items [])"

text \<open>\<open>if hasattr(v, '__len__')\<close>: one report line and one result field with \<open>len(v)\<close>.\<close>

definition sized_entry :: "node \<Rightarrow> string \<Rightarrow> string \<Rightarrow> string \<Rightarrow> unit prog" where
  "sized_entry v pre post field =
     (if has_len v then
        bindp (of_val (py_len v)) (\<lambda>n.
          steps [emit (pre @ dec (int n) @ post), put field (NInt (int n))])
      else ret ())"

definition counted :: "lib \<Rightarrow> node \<Rightarrow> string \<Rightarrow> string \<Rightarrow> string \<Rightarrow> string \<Rightarrow> unit prog" where
  "counted L s k pre post field =
     (if safe_check L s k then
        bindp (of_val (py_getitem s k)) (\<lambda>v. sized_entry v pre post field)
      else ret ())"

definition modern_section :: "lib \<Rightarrow> node \<Rightarrow> unit prog" where
  "modern_section L s =
     (if safe_check L s ''Palette'' then
        bindp (of_val (py_getitem s ''Palette'')) (\<lambda>palette.
        bindp (of_val (py_len palette)) (\<lambda>block_count.
        bindp (emit (CHR 0x0A # ''Block types: '' @ dec (int block_count))) (\<lambda>_.
        bindp (emit ''All block types:'') (\<lambda>_.
        bindp (list_block_types L palette) (\<lambda>block_types.
        bindp (put ''block_stats''
                 (Compound [(''total_block_types'', NInt (int block_count)),
                            (''blocks'', NList block_types)])) (\<lambda>_.
        counted L s ''BlockData'' (CHR 0x0A # ''Block data size: '') '' bytes''
          ''block_data_size''))))))
      else ret ())"

text \<open>
  \<open>total_blocks\<close>: \<open>blocks.size\<close> when there is a \<open>shape\<close> and it is a non-empty tuple,
  else \<open>len(blocks)\<close> when there is a \<open>__len__\<close>, else the string; the bare \<open>except\<close>
  turns any exception into the other string.
\<close>

definition total_blocks_try :: "node \<Rightarrow> exn + node" where
  "total_blocks_try blocks =
     (if (case py_shape blocks of Some shp \<Rightarrow> shp \<noteq> [] | None \<Rightarrow> False) then
        andthen (py_size blocks) (\<lambda>n. Inr (NInt (int n)))
      else if has_len blocks then
        andthen (py_len blocks) (\<lambda>n. Inr (NInt (int n)))
      else Inr (NString ''unknown''))"

definition total_blocks :: "node \<Rightarrow> node" where
  "total_blocks blocks =
     (case total_blocks_try blocks of
        Inr t \<Rightarrow> t
      | Inl _ \<Rightarrow> NString ''unknown (error determining size)'')"

definition classic_section :: "lib \<Rightarrow> node \<Rightarrow> unit prog" where
  "classic_section L s =
     steps
       [emit (CHR 0x0A # ''Block data available (classic format)''),
        (if safe_check L s ''Blocks'' then
           bindp (of_val (py_getitem s ''Blocks'')) (\<lambda>blocks.
           bindp (of_val (py_str L (total_blocks blocks))) (\<lambda>total_str.
             steps
               [emit (''Total blocks: '' @ total_str),
                put ''block_stats'' (Compound [(''total_blocks'', total_blocks blocks)]),
                counted L s ''Data'' ''Block data size: '' '' bytes'' ''block_data_size'',
                counted L s ''TileEntities'' ''Tile entities: '' [] ''tile_entities_count'',
                counted L s ''Entities'' ''Entities: '' [] ''entities_count'']))
         else ret ())]"

definition block_stats_section :: "lib \<Rightarrow> string \<Rightarrow> node \<Rightarrow> unit prog" where
  "block_stats_section L format_type s =
     (if startswith format_type ''modern_worldedit'' then modern_section L s
      else if format_type = ''classic_worldedit'' then classic_section L s
      else if format_type = ''litematica'' then emit (CHR 0x0A # ''Block data available in regions'')
      else ret ())"

section \<open>Metadata\<close>

definition complex_object :: "string \<Rightarrow> string \<Rightarrow> node \<Rightarrow> unit prog" where
  "complex_object section k v =
     bindp (emit (''  '' @ k @ '': [complex object]'')) (\<lambda>_.
     try_catch
       (bindp (of_val (py_keys v)) (\<lambda>ks.
          steps
            [emit (''    Keys: '' @ join '', '' ks),
             put_in section k (Compound [(''keys'', NList (map NString ks))])]))
       (\<lambda>_. put_in section k (NString ''complex object'')))"

definition rendered :: "string \<Rightarrow> string \<Rightarrow> exn + string \<Rightarrow> unit prog" where
  "rendered section k text =
     bindp (of_val text) (\<lambda>str.
       steps [emit (''  '' @ k @ '': '' @ str), put_in section k (NString str)])"

definition metadata_item :: "lib \<Rightarrow> string \<times> node \<Rightarrow> unit prog" where
  "metadata_item L item =
     (let k = fst item; v = snd item in
      if k = ''WorldEdit'' then ret ()
      else if k = ''EnclosingSize'' \<and> is_dict v then
        rendered ''metadata'' k (format_coordinates L v)
      else if k = ''TimeCreated'' \<or> k = ''TimeModified'' then
        rendered ''metadata'' k (format_timestamp L v)
      else if is_dict v then complex_object ''metadata'' k v
      else rendered ''metadata'' k (safe_to_string L v))"

definition metadata_section :: "lib \<Rightarrow> node \<Rightarrow> unit prog" where
  "metadata_section L s =
     (if safe_check L s ''Metadata'' then
        steps
          [emit (CHR 0x0A # ''Metadata:''),
           put ''metadata'' (Compound []),
           bindp (of_val (py_getitem s ''Metadata'')) (\<lambda>metadata.
           bindp (of_val (py_items metadata)) (\<lambda>items.
             for_each (metadata_item L) items))]
      else ret ())"

definition worldedit_item :: "lib \<Rightarrow> string \<times> node \<Rightarrow> unit prog" where
  "worldedit_item L item =
     (let k = fst item; v = snd item in
      if k = ''Origin'' \<and> is_dict v then
        rendered ''worldedit_metadata'' k (format_coordinates L v)
      else if is_dict v then complex_object ''worldedit_metadata'' k v
      else rendered ''worldedit_metadata'' k (safe_to_string L v))"

definition worldedit_section :: "lib \<Rightarrow> node \<Rightarrow> unit prog" where
  "worldedit_section L s =
     (if safe_check L s ''Metadata'' then
        bindp (of_val (py_getitem s ''Metadata'')) (\<lambda>metadata.
          if safe_check L metadata ''WorldEdit'' then
            steps
              [emit (CHR 0x0A # ''WorldEdit Metadata:''),
               put ''worldedit_metadata'' (Compound []),
               bindp (of_val (py_getitem s ''Metadata'')) (\<lambda>metadata'.
               bindp (of_val (py_getitem metadata' ''WorldEdit'')) (\<lambda>we_metadata.
               bindp (of_val (py_items we_metadata)) (\<lambda>items.
                 for_each (worldedit_item L) items)))]
          else ret ())
      else ret ())"

section \<open>Additional keys\<close>

definition reserved :: "string list" where
  "reserved = [''Palette'', ''BlockData'', ''Blocks'', ''Data'', ''Regions'', ''Metadata'']"

definition additional_value :: "lib \<Rightarrow> string \<Rightarrow> node \<Rightarrow> unit prog" where
  "additional_value L k v =
     (if is_dict v then
        bindp (emit (''  '' @ k @ '': [complex object]'')) (\<lambda>_.
        try_catch
          (bindp (of_val (py_keys v)) (\<lambda>ks. emit (''    Keys: '' @ join '', '' ks)))
          (\<lambda>_. ret ()))
      else
        bindp (of_val (safe_to_string L v)) (\<lambda>str. emit (''  '' @ k @ '': '' @ str)))"

fun additional_loop :: "lib \<Rightarrow> node \<Rightarrow> string list \<Rightarrow> string list \<Rightarrow> string list prog" where
  "additional_loop L s [] acc st = (Inr acc, st)"
| "additional_loop L s (k # ks) acc st =
     (if k \<notin> set reserved then
        (case bindp (of_val (py_getitem s k)) (additional_value L k) st of
           (Inl e, st') \<Rightarrow> (Inl e, st')
         | (Inr _, st') \<Rightarrow> additional_loop L s ks (acc @ [k]) st')
      else additional_loop L s ks acc st)"

definition additional_section :: "lib \<Rightarrow> node \<Rightarrow> unit prog" where
  "additional_section L s =
     bindp (emit (CHR 0x0A # ''Additional NBT Data:'')) (\<lambda>_.
     bindp (of_val (py_keys s)) (\<lambda>ks.
     bindp (additional_loop L s ks []) (\<lambda>additional_keys.
       if additional_keys = [] then emit ''  No additional NBT data found''
       else put ''additional_nbt_keys'' (NList (map NString additional_keys)))))"

section \<open>The analysis\<close>

definition extraction :: "lib \<Rightarrow> node \<Rightarrow> unit prog" where
  "extraction L s =
     bindp (of_val (detect_format L s)) (\<lambda>format_type.
       steps
         [emit (''Format: '' @ format_type),
          put ''format'' (NString format_type),
          (if format_type = ''litematica'' then regions_section L s
           else dimensions_section L s),
          block_stats_section L format_type s,
          metadata_section L s,
          worldedit_section L s,
          additional_section L s,
          emit (CHR 0x0A # ''=== End of analysis ==='')])"

text \<open>
  What the file system and the clock give: the base name, the path as a string, the size
  in bytes, the time stamp of the analysis, and what reading the file returns.
\<close>

record source_file =
  file_name :: string
  file_path :: string
  file_size :: nat
  analysis_time :: string
  contents :: "exn + 8 word list"

definition byte_at :: "8 word list \<Rightarrow> nat \<Rightarrow> exn + 8 word" where
  "byte_at raw i = (if i < length raw then Inr (raw ! i) else Inl IndexError)"

definition is_gzipped :: "8 word list \<Rightarrow> exn + bool" where
  "is_gzipped raw =
     andthen (byte_at raw 0) (\<lambda>b0.
       if b0 \<noteq> 0x1f then Inr False
       else andthen (byte_at raw 1) (\<lambda>b1. Inr (b1 = 0x8b)))"

definition compression_name :: "bool \<Rightarrow> string" where
  "compression_name gz = (if gz then ''gzipped'' else ''not gzipped'')"

text \<open>
  The two early returns: a failed decompression and a failed parse each record the
  error and return at once. \<open>decompress\<close> yields \<open>None\<close> after the first of them.
\<close>

definition decompress :: "lib \<Rightarrow> bool \<Rightarrow> 8 word list \<Rightarrow> 8 word list option prog" where
  "decompress L gz raw =
     (if gz then
        (case gunzip L raw of
           Inr file_data \<Rightarrow>
             bindp (emit (''Decompressed size: '' @ dec (int (length file_data)) @ '' bytes'')) (\<lambda>_.
             bindp (put ''decompressed_size'' (NInt (int (length file_data)))) (\<lambda>_.
             ret (Some file_data)))
         | Inl e \<Rightarrow>
             bindp (emit (''Error decompressing file: '' @ exn_text L e)) (\<lambda>_.
             bindp (put ''error'' (NString (''Error decompressing file: '' @ exn_text L e))) (\<lambda>_.
             ret None)))
      else ret (Some raw))"

definition schematic_of :: "dict \<Rightarrow> node" where
  "schematic_of nbt_data =
     (case map_of nbt_data ''Schematic'' of Some v \<Rightarrow> v | None \<Rightarrow> Compound nbt_data)"

definition parse_and_extract :: "lib \<Rightarrow> 8 word list \<Rightarrow> unit prog" where
  "parse_and_extract L file_data =
     (case parse L file_data of
        Inl e \<Rightarrow>
          steps
            [emit (''Error parsing NBT data: '' @ exn_text L e),
             put ''error'' (NString (''Error parsing NBT data: '' @ exn_text L e))]
      | Inr (nbt_data, gzipped) \<Rightarrow>
          steps
            [emit (''NBT format: '' @ gzipped),
             extraction L (schematic_of nbt_data)])"

definition analysis :: "lib \<Rightarrow> source_file \<Rightarrow> unit prog" where
  "analysis L f =
     bindp (of_val (contents f)) (\<lambda>raw_data.
     bindp (of_val (is_gzipped raw_data)) (\<lambda>gz.
     bindp (emit (''File compression: '' @ compression_name gz)) (\<lambda>_.
     bindp (put ''compression'' (NString (compression_name gz))) (\<lambda>_.
     bindp (decompress L gz raw_data) (\<lambda>file_data.
       case file_data of
         None \<Rightarrow> ret ()
       | Some d \<Rightarrow> parse_and_extract L d)))))"

definition initial_state :: "source_file \<Rightarrow> state" where
  "initial_state f =
     \<lparr>result =
        [(''file_name'', NString (file_name f)),
         (''file_path'', NString (file_path f)),
         (''file_size'', NInt (int (file_size f))),
         (''analysis_time'', NString (analysis_time f))],
      report =
        [CHR 0x0A # ''=== Analyzing file: '' @ file_name f @ '' ==='',
         ''File path: '' @ file_path f,
         ''File size: '' @ dec (int (file_size f)) @ '' bytes'']\<rparr>"

text \<open>
  The outer handler keeps what was recorded and adds the error. The function returns the
  result and the report; the model returns the report as its lines, before the join, and
  leaves the optional log file out.
\<close>

definition analyze_schematic :: "lib \<Rightarrow> source_file \<Rightarrow> dict \<times> string list" where
  "analyze_schematic L f =
     (case analysis L f (initial_state f) of
        (Inr _, st) \<Rightarrow> (result st, report st)
      | (Inl e, st) \<Rightarrow>
          (dict_set ''error'' (NString (''Error analyzing file: '' @ exn_text L e)) (result st),
           report st @ [''Error analyzing file: '' @ exn_text L e, traceback L e]))"

section \<open>Notions the properties are stated with\<close>

definition formats :: "string list" where
  "formats =
     [''modern_worldedit'', ''modern_worldedit_nested'', ''modern_alternate'',
      ''classic_worldedit'', ''litematica'', ''unknown'']"

text \<open>The value of a dimension: the capitalised key first, then the lower-case one, then 0.\<close>

definition dimension_of :: "dict \<Rightarrow> string \<Rightarrow> string \<Rightarrow> node" where
  "dimension_of d upper lower =
     (case map_of d upper of
        Some v \<Rightarrow> v
      | None \<Rightarrow> (case map_of d lower of Some v \<Rightarrow> v | None \<Rightarrow> NInt 0))"

text \<open>The text of one axis: \<open>?\<close> when the key is absent, the string form of the value otherwise.\<close>

definition axis_text :: "lib \<Rightarrow> dict \<Rightarrow> string \<Rightarrow> exn + string" where
  "axis_text L d k = (case map_of d k of None \<Rightarrow> Inr ''?'' | Some v \<Rightarrow> py_str L v)"

text \<open>The root keys outside the reserved set, in the order of the root.\<close>

definition residual :: "dict \<Rightarrow> string list" where
  "residual d = filter (\<lambda>k. k \<notin> set reserved) (keys d)"

text \<open>
  The root keys whose values the extraction of a variant reads, after detection: the
  six dimension keys or \<open>Regions\<close> (lines 131 to 185 of the source), and the keys of the
  block statistics (lines 188 to 260).
\<close>

definition consumed_keys :: "string \<Rightarrow> string list" where
  "consumed_keys format_type =
     (if format_type = ''litematica'' then [''Regions'']
      else [''Width'', ''width'', ''Height'', ''height'', ''Length'', ''length''])
     @ (if startswith format_type ''modern_worldedit'' then [''Palette'', ''BlockData'']
        else if format_type = ''classic_worldedit''
          then [''Blocks'', ''Data'', ''TileEntities'', ''Entities'']
        else [])"

definition accounted :: "string \<Rightarrow> dict \<Rightarrow> string set" where
  "accounted format_type d =
     (set (consumed_keys format_type) \<inter> set (keys d))
     \<union> set (residual d)
     \<union> ({''Metadata''} \<inter> set (keys d))"

text \<open>The block count of a \<open>Blocks\<close> value, by the kind of node.\<close>

definition block_count_of :: "node \<Rightarrow> node" where
  "block_count_of blocks =
     (case blocks of
        NArray a \<Rightarrow> NInt (int (length a))
      | Compound d \<Rightarrow> NInt (int (length d))
      | NList xs \<Rightarrow> NInt (int (length xs))
      | NString s \<Rightarrow> NInt (int (length s))
      | _ \<Rightarrow> NString ''unknown'')"

text \<open>A length field: recorded when the key is present and its value has a length.\<close>

definition with_length :: "string \<Rightarrow> node option \<Rightarrow> dict \<Rightarrow> dict" where
  "with_length field v res =
     (case v of
        None \<Rightarrow> res
      | Some x \<Rightarrow>
          (case py_len x of Inr n \<Rightarrow> dict_set field (NInt (int n)) res | Inl _ \<Rightarrow> res))"

definition length_line :: "string \<Rightarrow> string \<Rightarrow> node option \<Rightarrow> string list" where
  "length_line pre post v =
     (case v of
        None \<Rightarrow> []
      | Some x \<Rightarrow> (case py_len x of Inr n \<Rightarrow> [pre @ dec (int n) @ post] | Inl _ \<Rightarrow> []))"

text \<open>The volume of three integer dimensions.\<close>

definition volume_of :: "int \<Rightarrow> int \<Rightarrow> int \<Rightarrow> int" where
  "volume_of w h l = (if w = 0 \<or> h = 0 \<or> l = 0 then 0 else w * h * l)"

text \<open>
  The count a region records for the value of \<open>BlockEntities\<close> or \<open>Entities\<close>: none when
  the key is absent or its value is falsy, the length of the value when it is truthy.
\<close>

definition count_entry :: "node option \<Rightarrow> node option" where
  "count_entry v =
     (case v of
        None \<Rightarrow> None
      | Some x \<Rightarrow>
          if py_truth x = Inr True then
            (case py_len x of Inr n \<Rightarrow> Some (NInt (int n)) | Inl _ \<Rightarrow> None)
          else None)"

definition listed_count :: "string \<Rightarrow> node option \<Rightarrow> dict \<Rightarrow> dict" where
  "listed_count field v info =
     (case count_entry v of None \<Rightarrow> info | Some n \<Rightarrow> dict_set field n info)"

definition absent_or_sized :: "node option \<Rightarrow> bool" where
  "absent_or_sized v = (case v of None \<Rightarrow> True | Some x \<Rightarrow> has_len x)"

text \<open>
  A region of the expected shape: a compound whose \<open>Size\<close> and \<open>Position\<close> are compounds
  and whose \<open>BlockEntities\<close> and \<open>Entities\<close> are lists, each when present.
\<close>

definition absent_or_compound :: "node option \<Rightarrow> bool" where
  "absent_or_compound v = (case v of None \<Rightarrow> True | Some (Compound _) \<Rightarrow> True | _ \<Rightarrow> False)"

definition absent_or_list :: "node option \<Rightarrow> bool" where
  "absent_or_list v = (case v of None \<Rightarrow> True | Some (NList _) \<Rightarrow> True | _ \<Rightarrow> False)"

definition region_ok :: "node \<Rightarrow> bool" where
  "region_ok region =
     (case region of
        Compound r \<Rightarrow>
          absent_or_compound (map_of r ''Size'') \<and> absent_or_compound (map_of r ''Position'')
          \<and> absent_or_list (map_of r ''BlockEntities'') \<and> absent_or_list (map_of r ''Entities'')
      | _ \<Rightarrow> False)"

text \<open>
  The result fields the sections between detection and the additional keys write, and
  those the whole extraction writes.
\<close>

definition section_fields :: "string list" where
  "section_fields =
     [''regions'', ''dimensions'', ''block_stats'', ''block_data_size'',
      ''tile_entities_count'', ''entities_count'', ''metadata'', ''worldedit_metadata'']"

definition extraction_fields :: "string list" where
  "extraction_fields = ''format'' # ''additional_nbt_keys'' # section_fields"

text \<open>
  The state in which the extraction starts: the file fields, the compression and, for a
  gzipped file, the decompressed size.
\<close>

definition loaded_state :: "source_file \<Rightarrow> bool \<Rightarrow> nat \<Rightarrow> string \<Rightarrow> state" where
  "loaded_state f gz n gzipped =
     \<lparr>result =
        result (initial_state f)
        @ [(''compression'', NString (compression_name gz))]
        @ (if gz then [(''decompressed_size'', NInt (int n))] else []),
      report =
        report (initial_state f)
        @ [''File compression: '' @ compression_name gz]
        @ (if gz then [''Decompressed size: '' @ dec (int n) @ '' bytes''] else [])
        @ [''NBT format: '' @ gzipped]\<rparr>"

text \<open>A piece of the analysis that neither adds nor removes the result field \<open>k\<close>.\<close>

definition keeps :: "string \<Rightarrow> 'a prog \<Rightarrow> bool" where
  "keeps k m = (\<forall>st r st'. m st = (r, st') \<longrightarrow> has_key (result st') k = has_key (result st) k)"

text \<open>A library whose string conversion never raises.\<close>

definition str_total :: "lib \<Rightarrow> bool" where
  "str_total L = (\<forall>v. \<exists>s. str_of L v = Inr s)"

text \<open>A sample library, for concrete runs.\<close>

definition plain_lib :: lib where
  "plain_lib =
     \<lparr>str_of = (\<lambda>_. Inr ''<object>''),
      mul_other = (\<lambda>_ _. Inl TypeError),
      array_in = (\<lambda>_ _. Inr False),
      array_eq = (\<lambda>_ _. Inl ValueError),
      format_date = (\<lambda>_. Inr ''<date>''),
      gunzip = (\<lambda>_. Inl (LibraryError ''not a gzip file'')),
      parse = (\<lambda>_. Inl (LibraryError ''bad tag'')),
      exn_text = (\<lambda>_. ''<message>''),
      traceback = (\<lambda>_. ''<traceback>'')\<rparr>"

text \<open>The sample library with a parser that returns a given tree.\<close>

definition tree_lib :: "dict \<Rightarrow> lib" where
  "tree_lib nbt_data = plain_lib\<lparr>parse := (\<lambda>_. Inr (nbt_data, ''False''))\<rparr>"

definition sample_file :: source_file where
  "sample_file =
     \<lparr>file_name = ''a.litematic'', file_path = ''/tmp/a.litematic'', file_size = 3,
      analysis_time = ''2024-01-01 00:00:00'', contents = Inr [10, 0, 0]\<rparr>"

definition empty_state :: state where
  "empty_state = \<lparr>result = [], report = []\<rparr>"

section \<open>Evaluation rules\<close>

lemma andthen_Inr [simp]: "andthen (Inr v) f = f v"
  by (simp add: andthen_def)

lemma andthen_Inl [simp]: "andthen (Inl e) f = Inl e"
  by (simp add: andthen_def)

lemmas prog_simps [simp] = ret_def of_val_def bindp_def emit_def put_def

lemma py_get_Compound:
  "py_get (Compound d) k dflt = Inr (case map_of d k of Some v \<Rightarrow> v | None \<Rightarrow> dflt)"
  by (simp add: py_get_def)

lemma dec_small: "0 \<le> i \<Longrightarrow> i < 10 \<Longrightarrow> dec i = [digit_char (nat i)]"
  by (simp add: dec_def dec_nat.simps)

lemma dec_numeral_eval:
  "dec 0 = ''0''" "dec 1 = ''1''" "dec 2 = ''2''" "dec 3 = ''3''" "dec 4 = ''4''" "dec 5 = ''5''"
  "dec 7 = ''7''" "dec 10 = ''10''" "dec (- 1) = ''-1''"
  by (simp_all add: dec_def dec_nat.simps digit_char_def)

section \<open>Format detection is an ordered first match\<close>

lemma has_key_map_of: "has_key d k \<longleftrightarrow> map_of d k \<noteq> None"
  by (simp add: has_key_def keys_def map_of_eq_None_iff)

lemma safe_check_Compound [simp]: "safe_check L (Compound d) k = has_key d k"
  by (simp add: safe_check_def py_in_def)

lemma nested_probe_Compound:
  "nested_probe L (Compound d) =
     Inr (\<exists>p. map_of d ''Blocks'' = Some (Compound p) \<and> has_key p ''Palette'')"
  by (auto simp: nested_probe_def py_get_def andthen_def is_dict_def has_key_map_of
      split: option.splits node.splits)

lemma detect_format_Compound:
  "detect_format L (Compound d) =
     Inr (if has_key d ''Palette'' \<and> has_key d ''BlockData'' then ''modern_worldedit''
          else if \<exists>p. map_of d ''Blocks'' = Some (Compound p) \<and> has_key p ''Palette''
            then ''modern_worldedit_nested''
          else if has_key d ''BlockData'' \<or> has_key d ''blocks'' then ''modern_alternate''
          else if has_key d ''Blocks'' \<and> has_key d ''Data'' then ''classic_worldedit''
          else if has_key d ''Regions'' then ''litematica''
          else ''unknown'')"
  unfolding detect_format_def nested_probe_Compound safe_check_Compound
  by auto

lemma classic_has_blocks_and_data:
  "detect_format L (Compound d) = Inr ''classic_worldedit''
   \<Longrightarrow> has_key d ''Blocks'' \<and> has_key d ''Data''"
  unfolding detect_format_Compound
  by (auto split: if_splits)

text \<open>
  C1. On a root compound the detector returns, without raising and whatever the library,
  the variant of the first probe that holds, in the order: \<open>Palette\<close> and \<open>BlockData\<close>;
  \<open>Blocks\<close> a compound that has \<open>Palette\<close>; \<open>BlockData\<close> or lower-case \<open>blocks\<close>;
  \<open>Blocks\<close> and \<open>Data\<close>; \<open>Regions\<close>; otherwise \<open>unknown\<close>. The value is one of the six
  variant names, and the first two probes win over the third when both shapes are there.
\<close>

theorem detect_format_first_match:
  "detect_format L (Compound d) =
     Inr (if has_key d ''Palette'' \<and> has_key d ''BlockData'' then ''modern_worldedit''
          else if \<exists>p. map_of d ''Blocks'' = Some (Compound p) \<and> has_key p ''Palette''
            then ''modern_worldedit_nested''
          else if has_key d ''BlockData'' \<or> has_key d ''blocks'' then ''modern_alternate''
          else if has_key d ''Blocks'' \<and> has_key d ''Data'' then ''classic_worldedit''
          else if has_key d ''Regions'' then ''litematica''
          else ''unknown'')
   \<and> (\<exists>f \<in> set formats. detect_format L (Compound d) = Inr f)"
  unfolding detect_format_Compound
  by (simp add: formats_def)

theorem detect_format_first_match_witness:
  "detect_format plain_lib
     (Compound [(''blocks'', NInt 1), (''Blocks'', Compound [(''Palette'', Compound [])]),
                (''BlockData'', NArray []), (''Palette'', Compound [])])
   = Inr ''modern_worldedit''
   \<and> detect_format plain_lib
     (Compound [(''blocks'', NInt 1), (''Blocks'', Compound [(''Palette'', Compound [])]),
                (''BlockData'', NArray [])])
   = Inr ''modern_worldedit_nested''"
  using detect_format_first_match [of plain_lib
      "[(''blocks'', NInt 1), (''Blocks'', Compound [(''Palette'', Compound [])]),
        (''BlockData'', NArray []), (''Palette'', Compound [])]"]
    detect_format_first_match [of plain_lib
      "[(''blocks'', NInt 1), (''Blocks'', Compound [(''Palette'', Compound [])]),
        (''BlockData'', NArray [])]"]
  by (simp add: has_key_def keys_def)

section \<open>The coordinate formatter\<close>

lemma axis_Compound: "axis L (Compound d) k = axis_text L d k"
  by (simp add: axis_def axis_text_def py_get_Compound safe_to_string_def py_str_def
      split: option.splits)

lemma format_coordinates_returns: "\<exists>s. format_coordinates L (Compound d) = Inr s"
  by (simp add: format_coordinates_def py_truth_def is_dict_def split: sum.splits)

text \<open>
  C4, as amended. On a compound the formatter never raises. On a non-empty compound whose
  three axis texts can be computed it returns them joined by \<open>" x "\<close>, where the text of an
  axis is \<open>?\<close> when the key is absent, each axis on its own, and the string form of the
  value when the key is present, whatever the kind of the value (decimal for an integer).
  So \<open>{x:1, z:3}\<close> gives \<open>1 x ? x 3\<close>. The empty compound gives \<open>unknown\<close>.
\<close>

theorem format_coordinates_compound:
  "(\<exists>s. format_coordinates L (Compound d) = Inr s)
   \<and> (d = [] \<longrightarrow> format_coordinates L (Compound d) = Inr ''unknown'')
   \<and> (d \<noteq> [] \<longrightarrow> axis_text L d ''x'' = Inr xs \<longrightarrow> axis_text L d ''y'' = Inr ys
        \<longrightarrow> axis_text L d ''z'' = Inr zs
        \<longrightarrow> format_coordinates L (Compound d) = Inr (xs @ '' x '' @ ys @ '' x '' @ zs))
   \<and> format_coordinates L (Compound [(''x'', NInt 1), (''z'', NInt 3)]) = Inr ''1 x ? x 3''"
proof -
  have a: "d = [] \<longrightarrow> format_coordinates L (Compound d) = Inr ''unknown''"
    by (simp add: format_coordinates_def py_truth_def)
  have b: "d \<noteq> [] \<longrightarrow> axis_text L d ''x'' = Inr xs \<longrightarrow> axis_text L d ''y'' = Inr ys
        \<longrightarrow> axis_text L d ''z'' = Inr zs
        \<longrightarrow> format_coordinates L (Compound d) = Inr (xs @ '' x '' @ ys @ '' x '' @ zs)"
    by (simp add: format_coordinates_def py_truth_def is_dict_def coordinates_body_def
        axis_Compound)
  have c: "format_coordinates L (Compound [(''x'', NInt 1), (''z'', NInt 3)]) = Inr ''1 x ? x 3''"
    by (simp add: format_coordinates_def py_truth_def is_dict_def coordinates_body_def
        axis_Compound axis_text_def py_str_def dec_small digit_char_def)
  from format_coordinates_returns a b c show ?thesis by blast
qed

theorem format_coordinates_compound_witness:
  "format_coordinates plain_lib (Compound [(''y'', NInt 7)]) = Inr ''? x 7 x ?''"
  using format_coordinates_compound [of plain_lib "[(''y'', NInt 7)]" "''?''" "''7''" "''?''"]
  by (simp add: axis_text_def py_str_def dec_small digit_char_def)

text \<open>
  C4 as stated fails twice: an axis that is present with a string where a number is
  expected is rendered as that string, not as \<open>?\<close>, and the empty compound is not
  rendered axis by axis at all.
\<close>

theorem format_coordinates_counterexample:
  "format_coordinates plain_lib
     (Compound [(''x'', NString ''abc''), (''y'', NInt 2), (''z'', NInt 3)])
     = Inr ''abc x 2 x 3''
   \<and> format_coordinates plain_lib (Compound []) = Inr ''unknown''"
  by (simp add: format_coordinates_def py_truth_def is_dict_def coordinates_body_def
        axis_Compound axis_text_def py_str_def dec_small digit_char_def)

lemma py_truth_returns: "\<exists>t. py_truth v = Inr t"
  by (cases v) (auto simp: py_truth_def)

lemma format_coordinates_not_dict: "\<not> is_dict v \<Longrightarrow> format_coordinates L v = Inr ''unknown''"
  using py_truth_returns [of v] by (auto simp: format_coordinates_def)

lemma format_coordinates_falsy: "py_truth v = Inr False \<Longrightarrow> format_coordinates L v = Inr ''unknown''"
  by (simp add: format_coordinates_def)

lemma coordinates_body_has_space:
  "coordinates_body L obj = Inr s \<Longrightarrow> CHR '' '' \<in> set s"
  by (auto simp: coordinates_body_def andthen_def split: sum.splits)

lemma format_coordinates_nonempty:
  assumes "d \<noteq> []"
  shows "format_coordinates L (Compound d) \<noteq> Inr ''unknown''"
proof (cases "coordinates_body L (Compound d)")
  case (Inl e)
  with assms show ?thesis
    by (simp add: format_coordinates_def py_truth_def is_dict_def)
next
  case (Inr s)
  from coordinates_body_has_space [OF this] have "s \<noteq> ''unknown''"
    by auto
  with Inr assms show ?thesis
    by (simp add: format_coordinates_def py_truth_def is_dict_def)
qed

text \<open>
  C9. The formatter returns \<open>unknown\<close> for every input that is not a compound, for the
  empty compound, and for every falsy input; no truth test raises. A non-empty compound
  never gets \<open>unknown\<close>: it is the only input rendered axis by axis.
\<close>

theorem format_coordinates_unknown:
  "(\<not> is_dict v \<longrightarrow> format_coordinates L v = Inr ''unknown'')
   \<and> format_coordinates L (Compound []) = Inr ''unknown''
   \<and> (py_truth v = Inr False \<longrightarrow> format_coordinates L v = Inr ''unknown'')
   \<and> (d \<noteq> [] \<longrightarrow> format_coordinates L (Compound d) \<noteq> Inr ''unknown'')"
  using format_coordinates_not_dict [of v L] format_coordinates_falsy [of v L]
    format_coordinates_falsy [of "Compound []" L] format_coordinates_nonempty [of d L]
  by (simp add: py_truth_def)

theorem format_coordinates_unknown_witness:
  "format_coordinates plain_lib (NArray [1, 2]) = Inr ''unknown''
   \<and> format_coordinates plain_lib (NInt 0) = Inr ''unknown''
   \<and> format_coordinates plain_lib (NString ''12'') = Inr ''unknown''
   \<and> format_coordinates plain_lib (Compound [(''w'', NInt 1)]) \<noteq> Inr ''unknown''"
  using format_coordinates_unknown [of "NArray [1, 2]" plain_lib "[(''w'', NInt 1)]"]
    format_coordinates_unknown [of "NInt 0" plain_lib "[]"]
    format_coordinates_unknown [of "NString ''12''" plain_lib "[]"]
  by (simp add: is_dict_def)

section \<open>Dimensions and volume\<close>

lemma get2_Compound: "get2 (Compound d) upper lower = Inr (dimension_of d upper lower)"
  by (simp add: get2_def dimension_of_def py_get_Compound split: option.splits)

lemma total_volume_ints:
  "total_volume L (NInt w) (NInt h) (NInt l) = Inr (NInt (volume_of w h l))"
  by (simp add: total_volume_def py_truth_def py_mul_def volume_of_def)

lemma volume_of_nonneg: "0 \<le> w \<Longrightarrow> 0 \<le> h \<Longrightarrow> 0 \<le> l \<Longrightarrow> 0 \<le> volume_of w h l"
  by (simp add: volume_of_def)

text \<open>
  C2, as amended. On a root compound whose three dimensions are integers, where a
  dimension is the value of the capitalised key, else that of the lower-case key, else 0,
  the extractor does not raise and records the three dimensions and
  \<open>total_volume = width * height * length\<close>, which is 0 as soon as one dimension is zero or
  missing, and which is not negative when no dimension is negative.
\<close>

theorem dimensions_volume:
  assumes "dimension_of d ''Width'' ''width'' = NInt w"
    and "dimension_of d ''Height'' ''height'' = NInt h"
    and "dimension_of d ''Length'' ''length'' = NInt l"
  shows "dimensions_section L (Compound d) st =
           (Inr (),
            st\<lparr>result :=
                 dict_set ''dimensions''
                   (Compound [(''width'', NInt w), (''height'', NInt h), (''length'', NInt l),
                              (''total_volume'', NInt (volume_of w h l))])
                   (result st),
               report :=
                 report st @
                 [''Dimensions: '' @ dec w @ '' x '' @ dec h @ '' x '' @ dec l,
                  ''Total volume: '' @ dec (volume_of w h l) @ '' blocks'']\<rparr>)
         \<and> volume_of w h l = w * h * l
         \<and> (0 \<le> w \<and> 0 \<le> h \<and> 0 \<le> l \<longrightarrow> 0 \<le> volume_of w h l)"
proof -
  have "dimensions_section L (Compound d) st =
           (Inr (),
            st\<lparr>result :=
                 dict_set ''dimensions''
                   (Compound [(''width'', NInt w), (''height'', NInt h), (''length'', NInt l),
                              (''total_volume'', NInt (volume_of w h l))])
                   (result st),
               report :=
                 report st @
                 [''Dimensions: '' @ dec w @ '' x '' @ dec h @ '' x '' @ dec l,
                  ''Total volume: '' @ dec (volume_of w h l) @ '' blocks'']\<rparr>)"
    using assms
    by (simp add: dimensions_section_def get2_Compound total_volume_ints py_str_def)
  moreover have "volume_of w h l = w * h * l"
    by (simp add: volume_of_def)
  ultimately show ?thesis
    using volume_of_nonneg by blast
qed

theorem dimensions_volume_witness:
  "dimensions_section plain_lib
     (Compound [(''Width'', NInt 2), (''width'', NInt 3), (''Height'', NInt 1), (''length'', NInt 5)])
     empty_state =
   (Inr (),
    \<lparr>result =
       [(''dimensions'',
         Compound [(''width'', NInt 2), (''height'', NInt 1), (''length'', NInt 5),
                   (''total_volume'', NInt 10)])],
     report = [''Dimensions: 2 x 1 x 5'', ''Total volume: 10 blocks'']\<rparr>)"
  using dimensions_volume [of
      "[(''Width'', NInt 2), (''width'', NInt 3), (''Height'', NInt 1), (''length'', NInt 5)]"
      2 1 5 plain_lib empty_state]
  by (simp add: dimension_of_def volume_of_def empty_state_def dec_numeral_eval)

text \<open>
  C2 as stated fails: the dimensions are signed integers, and a root of the variant
  \<open>unknown\<close> with \<open>Width = -1\<close>, \<open>Height = 1\<close>, \<open>Length = 1\<close> gets the volume \<open>-1\<close>.
\<close>

theorem dimensions_volume_counterexample:
  "extraction plain_lib
     (Compound [(''Width'', NInt (- 1)), (''Height'', NInt 1), (''Length'', NInt 1)])
     empty_state =
   (Inr (),
    \<lparr>result =
       [(''format'', NString ''unknown''),
        (''dimensions'',
         Compound [(''width'', NInt (- 1)), (''height'', NInt 1), (''length'', NInt 1),
                   (''total_volume'', NInt (- 1))]),
        (''additional_nbt_keys'', NList [NString ''Width'', NString ''Height'', NString ''Length''])],
     report =
       [''Format: unknown'', ''Dimensions: -1 x 1 x 1'', ''Total volume: -1 blocks'',
        CHR 0x0A # ''Additional NBT Data:'', ''  Width: -1'', ''  Height: 1'', ''  Length: 1'',
        CHR 0x0A # ''=== End of analysis ==='']\<rparr>)"
  by code_simp

section \<open>Block statistics of the classic format\<close>

lemma py_getitem_Compound:
  "py_getitem (Compound d) k = (case map_of d k of Some v \<Rightarrow> Inr v | None \<Rightarrow> Inl KeyError)"
  by (simp add: py_getitem_def)

lemma has_len_py_len: "has_len v \<longleftrightarrow> (\<exists>n. py_len v = Inr n)"
  by (cases v) (simp_all add: has_len_def py_len_def)

lemma sized_entry_run:
  "sized_entry v pre post field st =
     (Inr (), st\<lparr>result := with_length field (Some v) (result st),
                report := report st @ length_line pre post (Some v)\<rparr>)"
  by (cases v) (simp_all add: sized_entry_def has_len_def py_len_def with_length_def
      length_line_def)

lemma counted_Compound:
  "counted L (Compound d) k pre post field st =
     (Inr (), st\<lparr>result := with_length field (map_of d k) (result st),
                report := report st @ length_line pre post (map_of d k)\<rparr>)"
  by (cases "map_of d k")
     (simp_all add: counted_def has_key_map_of py_getitem_Compound sized_entry_run
        with_length_def length_line_def)

lemma total_blocks_by_kind: "total_blocks blocks = block_count_of blocks"
  by (cases blocks)
     (simp_all add: total_blocks_def total_blocks_try_def py_shape_def py_size_def has_len_def
        py_len_def block_count_of_def)

lemma block_count_text: "\<exists>s. py_str L (block_count_of blocks) = Inr s"
  by (cases blocks) (simp_all add: block_count_of_def py_str_def)

text \<open>
  C7. On a root detected as \<open>classic_worldedit\<close> the block statistics never raise.
  \<open>Blocks\<close> is present, and \<open>total_blocks\<close> is the number of elements of an array (the
  node with a shape), the length of a list, string or compound (the nodes with a length
  and no shape), and the string \<open>unknown\<close> otherwise. \<open>block_data_size\<close>,
  \<open>tile_entities_count\<close> and \<open>entities_count\<close> are recorded each on its own, exactly when
  \<open>Data\<close>, \<open>TileEntities\<close>, \<open>Entities\<close> is present with a value that has a length.
\<close>

theorem classic_block_statistics:
  assumes "detect_format L (Compound d) = Inr ''classic_worldedit''"
  shows "\<exists>blocks out.
           map_of d ''Blocks'' = Some blocks
         \<and> classic_section L (Compound d) st =
             (Inr (),
              st\<lparr>result :=
                   with_length ''entities_count'' (map_of d ''Entities'')
                     (with_length ''tile_entities_count'' (map_of d ''TileEntities'')
                       (with_length ''block_data_size'' (map_of d ''Data'')
                         (dict_set ''block_stats''
                            (Compound [(''total_blocks'', block_count_of blocks)])
                            (result st)))),
                 report := report st @ out\<rparr>)"
proof -
  from assms have "has_key d ''Blocks''"
    by (simp add: classic_has_blocks_and_data)
  then obtain blocks where b: "map_of d ''Blocks'' = Some blocks"
    by (auto simp: has_key_map_of)
  obtain s where s: "py_str L (block_count_of blocks) = Inr s"
    using block_count_text by blast
  have "classic_section L (Compound d) st =
             (Inr (),
              st\<lparr>result :=
                   with_length ''entities_count'' (map_of d ''Entities'')
                     (with_length ''tile_entities_count'' (map_of d ''TileEntities'')
                       (with_length ''block_data_size'' (map_of d ''Data'')
                         (dict_set ''block_stats''
                            (Compound [(''total_blocks'', block_count_of blocks)])
                            (result st)))),
                 report := report st @
                   ([CHR 0x0A # ''Block data available (classic format)'', ''Total blocks: '' @ s]
                    @ length_line ''Block data size: '' '' bytes'' (map_of d ''Data'')
                    @ length_line ''Tile entities: '' [] (map_of d ''TileEntities'')
                    @ length_line ''Entities: '' [] (map_of d ''Entities''))\<rparr>)"
    using b s \<open>has_key d ''Blocks''\<close>
    by (simp add: classic_section_def py_getitem_Compound total_blocks_by_kind counted_Compound)
  with b show ?thesis by blast
qed

theorem classic_block_statistics_witness:
  "result (snd (classic_section plain_lib
     (Compound [(''Blocks'', NArray [1, 2, 3]), (''Data'', NArray [0, 0, 0]),
                (''TileEntities'', NList []), (''Entities'', NInt 7)])
     empty_state)) =
   [(''block_stats'', Compound [(''total_blocks'', NInt 3)]),
    (''block_data_size'', NInt 3), (''tile_entities_count'', NInt 0)]"
proof -
  have "detect_format plain_lib
     (Compound [(''Blocks'', NArray [1, 2, 3]), (''Data'', NArray [0, 0, 0]),
                (''TileEntities'', NList []), (''Entities'', NInt 7)]) = Inr ''classic_worldedit''"
    by (simp add: detect_format_Compound has_key_def keys_def)
  from classic_block_statistics [OF this, of empty_state]
  show ?thesis
    by (auto simp: with_length_def py_len_def block_count_of_def empty_state_def)
qed

section \<open>Regions of a litematica file\<close>

lemma map_of_dict_set: "map_of (dict_set k v d) k' = (if k' = k then Some v else map_of d k')"
  by (induction d) auto

lemma py_str_total: "str_total L \<Longrightarrow> \<exists>s. py_str L v = Inr s"
  by (cases v) (auto simp: py_str_def str_total_def)

lemma fmt_axis_Compound: "fmt_axis L (Compound c) k = axis_text L c k"
  by (simp add: fmt_axis_def axis_text_def py_get_Compound py_str_def split: option.splits)

lemma axis_text_total: "str_total L \<Longrightarrow> \<exists>s. axis_text L c k = Inr s"
  by (cases "map_of c k") (simp_all add: axis_text_def py_str_total)

lemma triple_total:
  assumes "str_total L"
  shows "\<exists>s. triple L (Compound c) = Inr s"
proof -
  obtain x y z where "axis_text L c ''x'' = Inr x" "axis_text L c ''y'' = Inr y"
      "axis_text L c ''z'' = Inr z"
    using axis_text_total [OF assms] by meson
  then show ?thesis
    by (simp add: triple_def fmt_axis_Compound)
qed

lemma region_size_total:
  assumes "str_total L"
    and "map_of r ''Size'' = None \<or> (\<exists>c. map_of r ''Size'' = Some (Compound c))"
  shows "\<exists>info' st'. region_size L (Compound r) info st = (Inr info', st')"
  using assms(2)
proof
  assume "map_of r ''Size'' = None"
  then show ?thesis
    by (simp add: region_size_def has_key_map_of)
next
  assume "\<exists>c. map_of r ''Size'' = Some (Compound c)"
  then obtain c where c: "map_of r ''Size'' = Some (Compound c)" by blast
  obtain s where "triple L (Compound c) = Inr s"
    using triple_total [OF assms(1)] by blast
  with c show ?thesis
    by (simp add: region_size_def has_key_map_of py_getitem_Compound)
qed

lemma region_position_total:
  assumes "str_total L"
    and "map_of r ''Position'' = None \<or> (\<exists>c. map_of r ''Position'' = Some (Compound c))"
  shows "\<exists>info' st'. region_position L (Compound r) info st = (Inr info', st')"
  using assms(2)
proof
  assume "map_of r ''Position'' = None"
  then show ?thesis
    by (simp add: region_position_def has_key_map_of)
next
  assume "\<exists>c. map_of r ''Position'' = Some (Compound c)"
  then obtain c where c: "map_of r ''Position'' = Some (Compound c)" by blast
  obtain s where "triple L (Compound c) = Inr s"
    using triple_total [OF assms(1)] by blast
  with c show ?thesis
    by (simp add: region_position_def has_key_map_of py_getitem_Compound)
qed

lemma region_count_sized:
  assumes "absent_or_sized (map_of r src)"
  shows "\<exists>out. region_count L (Compound r) src label field info st =
           (Inr (listed_count field (map_of r src) info), st\<lparr>report := report st @ out\<rparr>)"
proof (cases "map_of r src")
  case None
  then show ?thesis
    by (intro exI [of _ "[]"])
       (simp add: region_count_def has_key_map_of listed_count_def count_entry_def)
next
  case (Some x)
  with assms obtain n where n: "py_len x = Inr n"
    by (auto simp: absent_or_sized_def has_len_py_len)
  obtain t where t: "py_truth x = Inr t"
    using py_truth_returns by blast
  show ?thesis
  proof (cases t)
    case True
    with Some n t show ?thesis
      by (intro exI [of _ "[''    '' @ label @ '': '' @ dec (int n)]"])
         (simp add: region_count_def has_key_map_of py_getitem_Compound listed_count_def
            count_entry_def)
  next
    case False
    with Some n t show ?thesis
      by (intro exI [of _ "[]"])
         (simp add: region_count_def has_key_map_of py_getitem_Compound listed_count_def
            count_entry_def)
  qed
qed

lemma region_size_result:
  "region_size L (Compound r) info st = (Inr info', st')
   \<Longrightarrow> info' = info \<or> (\<exists>s. info' = dict_set ''size'' (NString s) info)"
  by (auto simp: region_size_def split: if_splits sum.splits)

lemma region_position_result:
  "region_position L (Compound r) info st = (Inr info', st')
   \<Longrightarrow> info' = info \<or> (\<exists>s. info' = dict_set ''position'' (NString s) info)"
  by (auto simp: region_position_def split: if_splits sum.splits)

lemma bindp_Inr_iff:
  "bindp m f st = (Inr y, st') \<longleftrightarrow> (\<exists>x st1. m st = (Inr x, st1) \<and> f x st1 = (Inr y, st'))"
  by (auto simp: split: prod.splits sum.splits)

lemma region_count_listed:
  assumes "region_count L (Compound r) src label field info st = (Inr info', st')"
  shows "info' = listed_count field (map_of r src) info"
proof (cases "map_of r src")
  case None
  with assms show ?thesis
    by (simp add: region_count_def has_key_map_of listed_count_def count_entry_def)
next
  case (Some x)
  obtain t where t: "py_truth x = Inr t"
    using py_truth_returns by blast
  show ?thesis
  proof (cases t)
    case True
    with Some t assms show ?thesis
      by (cases "py_len x")
         (simp_all add: region_count_def has_key_map_of py_getitem_Compound listed_count_def
            count_entry_def)
  next
    case False
    with Some t assms show ?thesis
      by (simp add: region_count_def has_key_map_of py_getitem_Compound listed_count_def
            count_entry_def)
  qed
qed

lemma map_of_listed_count:
  "map_of (listed_count field v info) k =
     (if k = field \<and> count_entry v \<noteq> None then count_entry v else map_of info k)"
  by (auto simp: listed_count_def map_of_dict_set split: option.splits)

lemma count_entry_list:
  "count_entry (Some (NList xs)) = (if xs = [] then None else Some (NInt (int (length xs))))"
  by (simp add: count_entry_def py_truth_def py_len_def)

lemma region_info_parts:
  assumes "region_info L (Compound r) st = (Inr info, st')"
  shows "\<exists>i2. map_of i2 ''block_entities_count'' = None \<and> map_of i2 ''entities_count'' = None
     \<and> info = listed_count ''entities_count'' (map_of r ''Entities'')
                (listed_count ''block_entities_count'' (map_of r ''BlockEntities'') i2)"
proof -
  from assms(1) obtain i1 s1 i2 s2 i3 s3 where
    a: "region_size L (Compound r) [] st = (Inr i1, s1)"
    and b: "region_position L (Compound r) i1 s1 = (Inr i2, s2)"
    and c: "region_count L (Compound r) ''BlockEntities'' ''Block Entities''
              ''block_entities_count'' i2 s2 = (Inr i3, s3)"
    and d: "region_count L (Compound r) ''Entities'' ''Entities'' ''entities_count'' i3 s3
              = (Inr info, st')"
    unfolding region_info_def bindp_Inr_iff by blast
  from region_size_result [OF a] region_position_result [OF b]
  have k: "map_of i2 ''block_entities_count'' = None \<and> map_of i2 ''entities_count'' = None"
    by (auto simp: map_of_dict_set)
  from region_count_listed [OF c] region_count_listed [OF d] k
  show ?thesis by blast
qed

lemma region_info_total:
  assumes "str_total L"
    and "map_of r ''Size'' = None \<or> (\<exists>c. map_of r ''Size'' = Some (Compound c))"
    and "map_of r ''Position'' = None \<or> (\<exists>c. map_of r ''Position'' = Some (Compound c))"
    and "absent_or_sized (map_of r ''BlockEntities'')"
    and "absent_or_sized (map_of r ''Entities'')"
  shows "\<exists>info st'. region_info L (Compound r) st = (Inr info, st')"
proof -
  obtain i1 s1 where a: "region_size L (Compound r) [] st = (Inr i1, s1)"
    using region_size_total [OF assms(1,2)] by blast
  obtain i2 s2 where b: "region_position L (Compound r) i1 s1 = (Inr i2, s2)"
    using region_position_total [OF assms(1,3)] by blast
  obtain i3 s3 where c: "region_count L (Compound r) ''BlockEntities'' ''Block Entities''
              ''block_entities_count'' i2 s2 = (Inr i3, s3)"
    using region_count_sized [OF assms(4)] by blast
  obtain i4 s4 where d: "region_count L (Compound r) ''Entities'' ''Entities''
              ''entities_count'' i3 s3 = (Inr i4, s4)"
    using region_count_sized [OF assms(5)] by blast
  from a b c d show ?thesis
    unfolding region_info_def bindp_Inr_iff by blast
qed

lemma main_region_example:
  "regions_section L
     (Compound [(''Regions'',
        Compound [(''Main'',
          Compound [(''Size'', Compound [(''x'', NInt 4), (''y'', NInt 4), (''z'', NInt 4)])])])])
     empty_state =
   (Inr (),
    \<lparr>result = [(''regions'', Compound [(''Main'', Compound [(''size'', NString ''4 x 4 x 4'')])])],
     report = [CHR 0x0A # ''Regions:'', ''  - Main:'', ''    Size: 4 x 4 x 4'']\<rparr>)"
  by (simp add: regions_section_def py_get_Compound py_items_def region_step_def region_info_def
      region_size_def region_position_def region_count_def has_key_def keys_def
      py_getitem_Compound triple_def fmt_axis_Compound axis_text_def py_str_def
      dec_numeral_eval put_in_def empty_state_def)

text \<open>
  C6, as amended. Whenever the extraction of a region compound yields its record,
  \<open>block_entities_count\<close> (\<open>entities_count\<close>) is in the record exactly when \<open>BlockEntities\<close>
  (\<open>Entities\<close>) is present with a truthy value, and is then the length of that value. For a
  list this is: present exactly when the list exists and is not empty, with the length of
  the list; for an absent key: omitted. The record exists as soon as \<open>Size\<close> and \<open>Position\<close>
  are absent or compounds, \<open>BlockEntities\<close> and \<open>Entities\<close> are absent or have a length, and
  string conversion does not raise. A region \<open>Main\<close> with \<open>Size = {x:4, y:4, z:4}\<close> and
  nothing else gets the record \<open>{size: "4 x 4 x 4"}\<close>.
\<close>

theorem region_counts:
  "(region_info L (Compound r) st = (Inr info, st') \<longrightarrow>
      map_of info ''block_entities_count'' = count_entry (map_of r ''BlockEntities'')
    \<and> map_of info ''entities_count'' = count_entry (map_of r ''Entities''))
   \<and> (str_total L
        \<and> (map_of r ''Size'' = None \<or> (\<exists>c. map_of r ''Size'' = Some (Compound c)))
        \<and> (map_of r ''Position'' = None \<or> (\<exists>c. map_of r ''Position'' = Some (Compound c)))
        \<and> absent_or_sized (map_of r ''BlockEntities'')
        \<and> absent_or_sized (map_of r ''Entities'')
      \<longrightarrow> (\<exists>i s. region_info L (Compound r) st = (Inr i, s)))
   \<and> count_entry None = None
   \<and> count_entry (Some (NList xs)) = (if xs = [] then None else Some (NInt (int (length xs))))
   \<and> regions_section L
       (Compound [(''Regions'',
          Compound [(''Main'',
            Compound [(''Size'',
              Compound [(''x'', NInt 4), (''y'', NInt 4), (''z'', NInt 4)])])])])
       empty_state =
     (Inr (),
      \<lparr>result =
         [(''regions'', Compound [(''Main'', Compound [(''size'', NString ''4 x 4 x 4'')])])],
       report = [CHR 0x0A # ''Regions:'', ''  - Main:'', ''    Size: 4 x 4 x 4'']\<rparr>)"
proof -
  have one: "region_info L (Compound r) st = (Inr info, st') \<longrightarrow>
            map_of info ''block_entities_count'' = count_entry (map_of r ''BlockEntities'')
          \<and> map_of info ''entities_count'' = count_entry (map_of r ''Entities'')"
  proof
    assume "region_info L (Compound r) st = (Inr info, st')"
    from region_info_parts [OF this] obtain i2 where
      "map_of i2 ''block_entities_count'' = None" "map_of i2 ''entities_count'' = None"
      "info = listed_count ''entities_count'' (map_of r ''Entities'')
                (listed_count ''block_entities_count'' (map_of r ''BlockEntities'') i2)"
      by blast
    then show "map_of info ''block_entities_count'' = count_entry (map_of r ''BlockEntities'')
          \<and> map_of info ''entities_count'' = count_entry (map_of r ''Entities'')"
      by (auto simp: map_of_listed_count)
  qed
  have two: "str_total L
        \<and> (map_of r ''Size'' = None \<or> (\<exists>c. map_of r ''Size'' = Some (Compound c)))
        \<and> (map_of r ''Position'' = None \<or> (\<exists>c. map_of r ''Position'' = Some (Compound c)))
        \<and> absent_or_sized (map_of r ''BlockEntities'')
        \<and> absent_or_sized (map_of r ''Entities'')
      \<longrightarrow> (\<exists>i s. region_info L (Compound r) st = (Inr i, s))"
    using region_info_total by blast
  have three: "count_entry None = None"
    by (simp add: count_entry_def)
  from one two three count_entry_list main_region_example show ?thesis by blast
qed

theorem region_counts_witness:
  "\<exists>info st'.
     region_info plain_lib
       (Compound [(''Size'', Compound [(''x'', NInt 4), (''y'', NInt 4), (''z'', NInt 4)]),
                  (''BlockEntities'', NList []),
                  (''Entities'', NList [Compound [], Compound []])])
       empty_state = (Inr info, st')
   \<and> map_of info ''block_entities_count'' = None
   \<and> map_of info ''entities_count'' = Some (NInt 2)"
proof -
  have t: "str_total plain_lib"
    by (simp add: str_total_def plain_lib_def)
  from region_counts [of plain_lib
      "[(''Size'', Compound [(''x'', NInt 4), (''y'', NInt 4), (''z'', NInt 4)]),
        (''BlockEntities'', NList []),
        (''Entities'', NList [Compound [], Compound []])]" empty_state]
  show ?thesis
    using t by (simp add: count_entry_list absent_or_sized_def has_len_def) blast
qed

text \<open>
  C6 as stated fails: nothing tests that the value is a list. A string \<open>abc\<close> under
  \<open>BlockEntities\<close> is truthy and has a length, so the count 3 is recorded with no list
  there; an empty array is truthy, so the count 0 is recorded.
\<close>

theorem region_counts_counterexample:
  "region_info plain_lib (Compound [(''BlockEntities'', NString ''abc'')]) empty_state =
     (Inr [(''block_entities_count'', NInt 3)],
      \<lparr>result = [], report = [''    Block Entities: 3'']\<rparr>)
   \<and> region_info plain_lib (Compound [(''Entities'', NArray [])]) empty_state =
     (Inr [(''entities_count'', NInt 0)],
      \<lparr>result = [], report = [''    Entities: 0'']\<rparr>)"
  by (simp add: region_info_def region_size_def region_position_def region_count_def
      has_key_def keys_def py_getitem_Compound py_truth_def py_len_def dec_numeral_eval
      empty_state_def)

text \<open>
  C5. A region whose \<open>Size\<close> is present with an integer instead of a compound: \<open>safe_check\<close>
  finds the key, \<open>size.get\<close> raises AttributeError, nothing in the loop catches it. The
  region gets no entry, the regions after it are never visited, and the outer handler
  ends the analysis of the file.
\<close>

theorem bad_region_raises:
  assumes "map_of d ''Regions'' = Some (Compound ((name, Compound r) # rest))"
    and "map_of r ''Size'' = Some (NInt i)"
  shows "regions_section L (Compound d) st =
           (Inl AttributeError,
            st\<lparr>result := dict_set ''regions'' (Compound []) (result st),
               report := report st @ [CHR 0x0A # ''Regions:'', ''  - '' @ name @ '':'']\<rparr>)"
  using assms
  by (simp add: regions_section_def py_get_Compound py_items_def region_step_def region_info_def
      region_size_def has_key_map_of py_getitem_Compound triple_def fmt_axis_def py_get_def)

theorem bad_region_raises_witness:
  "regions_section plain_lib
     (Compound [(''Regions'',
        Compound [(''A'', Compound [(''Size'', NInt 5)]), (''B'', Compound [])])])
     empty_state =
   (Inl AttributeError,
    \<lparr>result = [(''regions'', Compound [])],
     report = [CHR 0x0A # ''Regions:'', ''  - A:'']\<rparr>)"
  using bad_region_raises [of
      "[(''Regions'', Compound [(''A'', Compound [(''Size'', NInt 5)]), (''B'', Compound [])])]"
      "''A''" "[(''Size'', NInt 5)]" "[(''B'', Compound [])]" 5 plain_lib empty_state]
  by (simp add: empty_state_def)

lemma bad_region_truncates_analysis:
  "analyze_schematic
     (tree_lib [(''Regions'',
        Compound [(''A'', Compound [(''Size'', NInt 5)]), (''B'', Compound [])])])
     sample_file =
   ([(''file_name'', NString ''a.litematic''), (''file_path'', NString ''/tmp/a.litematic''),
     (''file_size'', NInt 3), (''analysis_time'', NString ''2024-01-01 00:00:00''),
     (''compression'', NString ''not gzipped''), (''format'', NString ''litematica''),
     (''regions'', Compound []),
     (''error'', NString ''Error analyzing file: <message>'')],
    [CHR 0x0A # ''=== Analyzing file: a.litematic ==='', ''File path: /tmp/a.litematic'',
     ''File size: 3 bytes'', ''File compression: not gzipped'', ''NBT format: False'',
     ''Format: litematica'', CHR 0x0A # ''Regions:'', ''  - A:'',
     ''Error analyzing file: <message>'', ''<traceback>''])"
  by code_simp

text \<open>
  When every region has the expected shape and string conversion does not raise, the
  loop completes and every region of \<open>Regions\<close> has an entry, whether or not it has a
  \<open>Size\<close> or a \<open>Position\<close>.
\<close>

lemma absent_or_compound_iff:
  "absent_or_compound v \<longleftrightarrow> v = None \<or> (\<exists>c. v = Some (Compound c))"
  by (auto simp: absent_or_compound_def split: option.splits node.splits)

lemma absent_or_list_iff:
  "absent_or_list v \<longleftrightarrow> v = None \<or> (\<exists>xs. v = Some (NList xs))"
  by (auto simp: absent_or_list_def split: option.splits node.splits)

lemma region_size_state:
  "region_size L region info st = (x, st') \<Longrightarrow> result st' = result st"
  by (auto simp: region_size_def split: if_splits sum.splits)

lemma region_position_state:
  "region_position L region info st = (x, st') \<Longrightarrow> result st' = result st"
  by (auto simp: region_position_def split: if_splits sum.splits)

lemma region_count_state:
  "region_count L region src label field info st = (x, st') \<Longrightarrow> result st' = result st"
  by (auto simp: region_count_def split: if_splits sum.splits)

lemma region_info_state:
  assumes "region_info L region st = (Inr info, st')"
  shows "result st' = result st"
proof -
  from assms obtain i1 s1 i2 s2 i3 s3 where
    "region_size L region [] st = (Inr i1, s1)"
    "region_position L region i1 s1 = (Inr i2, s2)"
    "region_count L region ''BlockEntities'' ''Block Entities'' ''block_entities_count'' i2 s2
       = (Inr i3, s3)"
    "region_count L region ''Entities'' ''Entities'' ''entities_count'' i3 s3 = (Inr info, st')"
    unfolding region_info_def bindp_Inr_iff by blast
  then show ?thesis
    by (metis region_size_state region_position_state region_count_state)
qed

lemma set_keys_dict_set: "set (keys (dict_set k v d)) = insert k (set (keys d))"
  by (induction d) (auto simp: keys_def)

lemma region_step_ok:
  assumes "str_total L" and "region_ok (snd item)"
    and "map_of (result st) ''regions'' = Some (Compound regs)"
  shows "\<exists>st' info. region_step L item st = (Inr (), st')
           \<and> map_of (result st') ''regions'' = Some (Compound (dict_set (fst item) (Compound info) regs))"
proof -
  from assms(2) obtain r where r: "snd item = Compound r"
    by (cases "snd item") (simp_all add: region_ok_def)
  let ?s0 = "st\<lparr>report := report st @ [''  - '' @ fst item @ '':'']\<rparr>"
  from assms(1,2) r obtain info s1 where i: "region_info L (Compound r) ?s0 = (Inr info, s1)"
    using region_info_total [of L r ?s0]
    by (auto simp: region_ok_def absent_or_compound_iff absent_or_list_iff absent_or_sized_def
        has_len_def)
  from region_info_state [OF i] have "result s1 = result st" by simp
  with assms(3) i r have "region_step L item st =
      (Inr (), s1\<lparr>result := dict_set ''regions''
                  (Compound (dict_set (fst item) (Compound info) regs)) (result s1)\<rparr>)"
    by (simp add: region_step_def put_in_def)
  then show ?thesis
    by (intro exI [of _ "s1\<lparr>result := dict_set ''regions''
                  (Compound (dict_set (fst item) (Compound info) regs)) (result s1)\<rparr>"]
        exI [of _ info]) (simp add: map_of_dict_set)
qed

lemma regions_loop_ok:
  assumes "str_total L"
  shows "\<forall>item \<in> set items. region_ok (snd item)
   \<Longrightarrow> map_of (result st) ''regions'' = Some (Compound regs)
   \<Longrightarrow> \<exists>st' regs'. for_each (region_step L) items st = (Inr (), st')
         \<and> map_of (result st') ''regions'' = Some (Compound regs')
         \<and> set (keys regs') = set (keys regs) \<union> set (keys items)"
proof (induction items arbitrary: st regs)
  case Nil
  then show ?case by (simp add: keys_def)
next
  case (Cons item items)
  from Cons.prems obtain s1 info where
    a: "region_step L item st = (Inr (), s1)"
    and b: "map_of (result s1) ''regions''
              = Some (Compound (dict_set (fst item) (Compound info) regs))"
    using region_step_ok [OF assms, of item st regs] by auto
  from Cons.prems have "\<forall>i \<in> set items. region_ok (snd i)" by simp
  from Cons.IH [OF this b] obtain st' regs' where
    "for_each (region_step L) items s1 = (Inr (), st')"
    "map_of (result st') ''regions'' = Some (Compound regs')"
    "set (keys regs') = set (keys (dict_set (fst item) (Compound info) regs))
       \<union> set (keys items)"
    by blast
  moreover have "set (keys (item # items)) = insert (fst item) (set (keys items))"
    by (simp add: keys_def)
  ultimately show ?case
    using a by (intro exI [of _ st'] exI [of _ regs']) (auto simp: set_keys_dict_set)
qed

lemma regions_all_recorded:
  assumes "str_total L"
    and "map_of d ''Regions'' = Some (Compound rs)"
    and "\<forall>item \<in> set rs. region_ok (snd item)"
  shows "\<exists>st' regs. regions_section L (Compound d) st = (Inr (), st')
           \<and> map_of (result st') ''regions'' = Some (Compound regs)
           \<and> set (keys regs) = set (keys rs)"
proof -
  let ?s0 = "st\<lparr>report := report st @ [CHR 0x0A # ''Regions:''],
                result := dict_set ''regions'' (Compound []) (result st)\<rparr>"
  have "map_of (result ?s0) ''regions'' = Some (Compound [])"
    by (simp add: map_of_dict_set)
  from regions_loop_ok [OF assms(1,3) this] obtain st' regs where
    "for_each (region_step L) rs ?s0 = (Inr (), st')"
    "map_of (result st') ''regions'' = Some (Compound regs)"
    "set (keys regs) = set (keys rs)"
    by (auto simp: keys_def)
  with assms(2) show ?thesis
    by (simp add: regions_section_def py_get_Compound py_items_def)
qed

section \<open>Files that do not decode\<close>

lemma is_gzipped_two_bytes:
  "is_gzipped (b0 # b1 # rest) = Inr (b0 = 0x1f \<and> b1 = 0x8b)"
  by (simp add: is_gzipped_def byte_at_def)

lemma decompress_plain: "decompress L False raw st = (Inr (Some raw), st)"
  by (simp add: decompress_def)

lemma decompress_gzipped:
  "gunzip L raw = Inr file_data \<Longrightarrow>
   decompress L True raw st =
     (Inr (Some file_data),
      st\<lparr>report := report st @ [''Decompressed size: '' @ dec (int (length file_data)) @ '' bytes''],
         result := dict_set ''decompressed_size'' (NInt (int (length file_data))) (result st)\<rparr>)"
  by (simp add: decompress_def)

text \<open>
  C8. A file that was read, whose magic check returned and whose bytes (decompressed when
  gzipped) the parser rejects: the result holds the four identity fields, \<open>compression\<close>,
  \<open>decompressed_size\<close> when gzipped, and \<open>error\<close>, and nothing else, so no \<open>format\<close>; the
  report ends with the decode-error line.
\<close>

theorem undecodable_tree:
  assumes "contents f = Inr raw"
    and "is_gzipped raw = Inr gz"
    and "if gz then gunzip L raw = Inr file_data else file_data = raw"
    and "parse L file_data = Inl e"
  shows "analyze_schematic L f =
           ([(''file_name'', NString (file_name f)),
             (''file_path'', NString (file_path f)),
             (''file_size'', NInt (int (file_size f))),
             (''analysis_time'', NString (analysis_time f)),
             (''compression'', NString (compression_name gz))]
            @ (if gz then [(''decompressed_size'', NInt (int (length file_data)))] else [])
            @ [(''error'', NString (''Error parsing NBT data: '' @ exn_text L e))],
            [CHR 0x0A # ''=== Analyzing file: '' @ file_name f @ '' ==='',
             ''File path: '' @ file_path f,
             ''File size: '' @ dec (int (file_size f)) @ '' bytes'',
             ''File compression: '' @ compression_name gz]
            @ (if gz then [''Decompressed size: '' @ dec (int (length file_data)) @ '' bytes'']
               else [])
            @ [''Error parsing NBT data: '' @ exn_text L e])
         \<and> \<not> has_key (fst (analyze_schematic L f)) ''format''
         \<and> ''Error parsing NBT data: '' @ exn_text L e \<in> set (snd (analyze_schematic L f))"
proof (cases gz)
  case True
  with assms have g: "gunzip L raw = Inr file_data" by simp
  have "analyze_schematic L f =
           ([(''file_name'', NString (file_name f)),
             (''file_path'', NString (file_path f)),
             (''file_size'', NInt (int (file_size f))),
             (''analysis_time'', NString (analysis_time f)),
             (''compression'', NString (compression_name gz)),
             (''decompressed_size'', NInt (int (length file_data))),
             (''error'', NString (''Error parsing NBT data: '' @ exn_text L e))],
            [CHR 0x0A # ''=== Analyzing file: '' @ file_name f @ '' ==='',
             ''File path: '' @ file_path f,
             ''File size: '' @ dec (int (file_size f)) @ '' bytes'',
             ''File compression: '' @ compression_name gz,
             ''Decompressed size: '' @ dec (int (length file_data)) @ '' bytes'',
             ''Error parsing NBT data: '' @ exn_text L e])"
    using assms(1,2,4) True g
    by (simp add: analyze_schematic_def analysis_def initial_state_def decompress_gzipped
        parse_and_extract_def)
  with True show ?thesis
    by (simp add: has_key_def keys_def)
next
  case False
  with assms have g: "file_data = raw" by simp
  have "analyze_schematic L f =
           ([(''file_name'', NString (file_name f)),
             (''file_path'', NString (file_path f)),
             (''file_size'', NInt (int (file_size f))),
             (''analysis_time'', NString (analysis_time f)),
             (''compression'', NString (compression_name gz)),
             (''error'', NString (''Error parsing NBT data: '' @ exn_text L e))],
            [CHR 0x0A # ''=== Analyzing file: '' @ file_name f @ '' ==='',
             ''File path: '' @ file_path f,
             ''File size: '' @ dec (int (file_size f)) @ '' bytes'',
             ''File compression: '' @ compression_name gz,
             ''Error parsing NBT data: '' @ exn_text L e])"
    using assms(1,2,4) False g
    by (simp add: analyze_schematic_def analysis_def initial_state_def decompress_plain
        parse_and_extract_def)
  with False show ?thesis
    by (simp add: has_key_def keys_def)
qed

theorem undecodable_tree_witness:
  "analyze_schematic plain_lib sample_file =
     ([(''file_name'', NString ''a.litematic''), (''file_path'', NString ''/tmp/a.litematic''),
       (''file_size'', NInt 3), (''analysis_time'', NString ''2024-01-01 00:00:00''),
       (''compression'', NString ''not gzipped''),
       (''error'', NString ''Error parsing NBT data: <message>'')],
      [CHR 0x0A # ''=== Analyzing file: a.litematic ==='', ''File path: /tmp/a.litematic'',
       ''File size: 3 bytes'', ''File compression: not gzipped'',
       ''Error parsing NBT data: <message>''])"
proof -
  have a: "contents sample_file = Inr [10, 0, 0]"
    by (simp add: sample_file_def)
  have b: "is_gzipped [10, 0, 0] = Inr False"
    by (simp add: is_gzipped_two_bytes)
  have c: "if False then gunzip plain_lib [10, 0, 0] = Inr [10, 0, 0] else [10, 0, 0] = [10, 0, (0::8 word)]"
    by simp
  have d: "parse plain_lib [10, 0, 0] = Inl (LibraryError ''bad tag'')"
    by (simp add: plain_lib_def)
  from undecodable_tree [OF a b c d]
  show ?thesis
    by (simp add: sample_file_def compression_name_def plain_lib_def dec_numeral_eval)
qed

lemma empty_file_error:
  assumes "contents f = Inr []"
  shows "analyze_schematic L f =
           (result (initial_state f) @
              [(''error'', NString (''Error analyzing file: '' @ exn_text L IndexError))],
            report (initial_state f) @
              [''Error analyzing file: '' @ exn_text L IndexError, traceback L IndexError])"
  using assms
  by (simp add: analyze_schematic_def analysis_def is_gzipped_def byte_at_def initial_state_def)

section \<open>Result fields a section leaves alone\<close>

lemma has_key_dict_set: "has_key (dict_set k v d) k' \<longleftrightarrow> k' = k \<or> has_key d k'"
  by (induction d) (auto simp: has_key_def keys_def)

lemma keeps_ret: "keeps k (ret x)"
  by (simp add: keeps_def ret_def fun_eq_iff)

lemma keeps_of_val: "keeps k (of_val v)"
  by (simp add: keeps_def)

lemma keeps_emit: "keeps k (emit l)"
  by (auto simp: keeps_def)

lemma keeps_put: "k \<noteq> k' \<Longrightarrow> keeps k (put k' v)"
  by (auto simp: keeps_def has_key_dict_set)

lemma keeps_put_in: "k \<noteq> a \<Longrightarrow> keeps k (put_in a b v)"
  by (auto simp: keeps_def put_in_def has_key_dict_set split: option.splits node.splits)

lemma keeps_bindp: "keeps k m \<Longrightarrow> (\<And>x. keeps k (f x)) \<Longrightarrow> keeps k (bindp m f)"
  unfolding keeps_def
  by (auto split: prod.splits sum.splits)

lemma keeps_steps_Nil: "keeps k (steps [])"
  by (simp add: keeps_def)

lemma keeps_steps_Cons: "keeps k m \<Longrightarrow> keeps k (steps ms) \<Longrightarrow> keeps k (steps (m # ms))"
  unfolding keeps_def
  by (auto split: prod.splits sum.splits)

lemma keeps_for_each: "(\<And>x. keeps k (f x)) \<Longrightarrow> keeps k (for_each f xs)"
proof (induction xs)
  case Nil
  then show ?case by (simp add: keeps_def)
next
  case (Cons x xs)
  then have m: "keeps k (f x)" and ms: "keeps k (for_each f xs)" by simp_all
  show ?case
    unfolding keeps_def
  proof (intro allI impI)
    fix st r st'
    assume a: "for_each f (x # xs) st = (r, st')"
    obtain r1 s1 where r1: "f x st = (r1, s1)" by (cases "f x st")
    with m have k1: "has_key (result s1) k = has_key (result st) k"
      by (simp add: keeps_def)
    show "has_key (result st') k = has_key (result st) k"
    proof (cases r1)
      case (Inl e)
      with a r1 k1 show ?thesis by simp
    next
      case (Inr u)
      with a r1 have "for_each f xs s1 = (r, st')" by simp
      with ms k1 show ?thesis by (simp add: keeps_def)
    qed
  qed
qed

lemma keeps_try_catch: "keeps k m \<Longrightarrow> (\<And>e. keeps k (h e)) \<Longrightarrow> keeps k (try_catch m h)"
  unfolding keeps_def try_catch_def
  by (auto split: prod.splits sum.splits)

lemma keeps_if: "keeps k a \<Longrightarrow> keeps k b \<Longrightarrow> keeps k (if c then a else b)"
  by simp

lemmas keeps_intros =
  keeps_ret keeps_of_val keeps_emit keeps_put keeps_put_in keeps_bindp keeps_steps_Nil
  keeps_steps_Cons   keeps_for_each keeps_try_catch keeps_if

lemma keeps_palette_loop: "keeps k (palette_loop L items acc)"
  unfolding keeps_def
proof (induction items arbitrary: acc)
  case Nil
  then show ?case by auto
next
  case (Cons item rest)
  show ?case
  proof (intro allI impI)
    fix st r st'
    assume a: "palette_loop L (item # rest) acc st = (r, st')"
    show "has_key (result st') k = has_key (result st) k"
    proof (cases "py_str L (snd item)")
      case (Inl e)
      with a show ?thesis by auto
    next
      case (Inr s)
      with a Cons.IH show ?thesis by (auto split: prod.splits)
    qed
  qed
qed

lemma keeps_region_step: "k \<notin> set section_fields \<Longrightarrow> keeps k (region_step L item)"
  unfolding region_step_def region_info_def region_size_def region_position_def region_count_def
  by (intro keeps_intros; simp add: section_fields_def)

lemma keeps_regions: "k \<notin> set section_fields \<Longrightarrow> keeps k (regions_section L s)"
  unfolding regions_section_def
  by (intro keeps_intros keeps_region_step; simp add: section_fields_def)

lemma keeps_dimensions: "k \<notin> set section_fields \<Longrightarrow> keeps k (dimensions_section L s)"
  unfolding dimensions_section_def
  by (intro keeps_intros; simp add: section_fields_def)

lemma keeps_list_block_types: "keeps k (list_block_types L palette)"
  unfolding list_block_types_def
  by (cases "py_items palette") (simp_all add: keeps_palette_loop keeps_intros)

lemma keeps_counted: "k \<noteq> field \<Longrightarrow> keeps k (counted L s key pre post field)"
  unfolding counted_def sized_entry_def
  by (intro keeps_intros; simp)

lemma keeps_block_stats: "k \<notin> set section_fields \<Longrightarrow> keeps k (block_stats_section L fmt s)"
  unfolding block_stats_section_def modern_section_def classic_section_def
  by (intro keeps_intros keeps_list_block_types keeps_counted; simp add: section_fields_def)

lemma keeps_complex_object:
  "k \<noteq> sect \<Longrightarrow> keeps k (complex_object sect key v)"
  unfolding complex_object_def
  by (intro keeps_intros; simp)

lemma keeps_rendered: "k \<noteq> sect \<Longrightarrow> keeps k (rendered sect key txt)"
  unfolding rendered_def
  by (intro keeps_intros; simp)

lemma keeps_metadata_item: "k \<notin> set section_fields \<Longrightarrow> keeps k (metadata_item L item)"
  unfolding metadata_item_def Let_def
  by (intro keeps_intros keeps_complex_object keeps_rendered; simp add: section_fields_def)

lemma keeps_metadata: "k \<notin> set section_fields \<Longrightarrow> keeps k (metadata_section L s)"
  unfolding metadata_section_def
  by (intro keeps_intros keeps_metadata_item; simp add: section_fields_def)

lemma keeps_worldedit_item: "k \<notin> set section_fields \<Longrightarrow> keeps k (worldedit_item L item)"
  unfolding worldedit_item_def Let_def
  by (intro keeps_intros keeps_complex_object keeps_rendered; simp add: section_fields_def)

lemma keeps_worldedit: "k \<notin> set section_fields \<Longrightarrow> keeps k (worldedit_section L s)"
  unfolding worldedit_section_def
  by (intro keeps_intros keeps_worldedit_item; simp add: section_fields_def)

section \<open>The additional keys of the root\<close>

lemma additional_value_result:
  "additional_value L k v st = (r, st') \<Longrightarrow> result st' = result st"
  by (auto simp: additional_value_def try_catch_def split: if_splits sum.splits prod.splits)

lemma additional_value_total:
  assumes "str_total L"
  shows "\<exists>st'. additional_value L k v st = (Inr (), st')"
proof (cases "is_dict v")
  case True
  then obtain c where "v = Compound c"
    by (cases v) (simp_all add: is_dict_def)
  then show ?thesis
    by (simp add: additional_value_def is_dict_def try_catch_def py_keys_def)
next
  case False
  obtain s where "py_str L v = Inr s"
    using py_str_total [OF assms] by blast
  with False show ?thesis
    by (simp add: additional_value_def safe_to_string_def)
qed

lemma additional_loop_result:
  "additional_loop L (Compound d) ks acc st = (Inr acc', st')
   \<Longrightarrow> acc' = acc @ filter (\<lambda>k. k \<notin> set reserved) ks
     \<and> result st' = result st
     \<and> (filter (\<lambda>k. k \<notin> set reserved) ks = [] \<longrightarrow> report st' = report st)"
proof (induction ks arbitrary: acc st)
  case Nil
  then show ?case by simp
next
  case (Cons k ks)
  show ?case
  proof (cases "k \<in> set reserved")
    case True
    with Cons.prems have "additional_loop L (Compound d) ks acc st = (Inr acc', st')"
      by simp
    from Cons.IH [OF this] True show ?thesis by simp
  next
    case False
    obtain r1 s1 where r1:
      "bindp (of_val (py_getitem (Compound d) k)) (additional_value L k) st = (r1, s1)"
      by (cases "bindp (of_val (py_getitem (Compound d) k)) (additional_value L k) st")
    then have res: "result s1 = result st"
      by (auto simp: additional_value_result split: sum.splits)
    from Cons.prems False r1 obtain u where "r1 = Inr u"
      and "additional_loop L (Compound d) ks (acc @ [k]) s1 = (Inr acc', st')"
      by (cases r1) (simp_all del: bindp_def)
    from Cons.IH [OF this(2)] res False show ?thesis by simp
  qed
qed

lemma additional_loop_total:
  assumes "str_total L"
  shows "set ks \<subseteq> set (keys d)
   \<Longrightarrow> \<exists>acc' st'. additional_loop L (Compound d) ks acc st = (Inr acc', st')"
proof (induction ks arbitrary: acc st)
  case Nil
  then show ?case by simp
next
  case (Cons k ks)
  then have sub: "set ks \<subseteq> set (keys d)" and "has_key d k"
    by (simp_all add: has_key_def)
  then obtain v where v: "map_of d k = Some v"
    by (auto simp: has_key_map_of)
  obtain s1 where s1: "additional_value L k v st = (Inr (), s1)"
    using additional_value_total [OF assms] by blast
  show ?case
  proof (cases "k \<in> set reserved")
    case True
    with Cons.IH [OF sub] show ?thesis by simp
  next
    case False
    with v s1 Cons.IH [OF sub, of "acc @ [k]" s1] show ?thesis
      by (simp add: py_getitem_Compound)
  qed
qed

lemma additional_section_result:
  assumes "additional_section L (Compound d) st = (Inr (), st')"
  shows "result st' =
           (if residual d = [] then result st
            else dict_set ''additional_nbt_keys'' (NList (map NString (residual d))) (result st))
       \<and> (residual d = [] \<longrightarrow>
            report st' = report st @ [CHR 0x0A # ''Additional NBT Data:'',
                                      ''  No additional NBT data found''])"
proof -
  let ?st1 = "st\<lparr>report := report st @ [CHR 0x0A # ''Additional NBT Data:'']\<rparr>"
  obtain r1 s1 where l: "additional_loop L (Compound d) (keys d) [] ?st1 = (r1, s1)"
    by (cases "additional_loop L (Compound d) (keys d) [] ?st1")
  with assms obtain acc where acc: "r1 = Inr acc"
    by (cases r1) (simp_all add: additional_section_def py_keys_def)
  from additional_loop_result [OF l [unfolded acc]]
  have a: "acc = residual d" and b: "result s1 = result st"
    and c: "residual d = [] \<longrightarrow> report s1 = report st @ [CHR 0x0A # ''Additional NBT Data:'']"
    by (simp_all add: residual_def)
  from assms l acc a b c show ?thesis
    by (auto simp: additional_section_def py_keys_def split: if_splits)
qed

lemma additional_section_total:
  assumes "str_total L"
  shows "\<exists>st'. additional_section L (Compound d) st = (Inr (), st')"
proof -
  let ?st1 = "st\<lparr>report := report st @ [CHR 0x0A # ''Additional NBT Data:'']\<rparr>"
  obtain acc s1 where "additional_loop L (Compound d) (keys d) [] ?st1 = (Inr acc, s1)"
    using additional_loop_total [OF assms, of "keys d" d "[]" ?st1] by auto
  then show ?thesis
    by (simp add: additional_section_def py_keys_def)
qed

lemma residual_set: "set (residual d) = set (keys d) - set reserved"
  by (auto simp: residual_def)

lemma accounted_complete:
  "accounted fmt d = set (keys d) \<longleftrightarrow>
     (\<forall>k \<in> set (keys d). k \<in> set reserved \<longrightarrow> k = ''Metadata'' \<or> k \<in> set (consumed_keys fmt))"
  unfolding accounted_def residual_set
  by blast

text \<open>
  \<open>consumed_keys\<close> bounds what the extraction of a variant reads: two roots that agree on
  these keys get the same dimensions or regions and the same block statistics.
\<close>

lemma counted_reads:
  "map_of d k = map_of d' k
   \<Longrightarrow> counted L (Compound d) k pre post field = counted L (Compound d') k pre post field"
  by (rule ext) (simp add: counted_Compound)

lemma regions_reads:
  assumes "map_of d ''Regions'' = map_of d' ''Regions''"
  shows "regions_section L (Compound d) = regions_section L (Compound d')"
  unfolding regions_section_def py_get_Compound assms ..

lemma dimensions_reads:
  assumes "map_of d ''Width'' = map_of d' ''Width''" "map_of d ''width'' = map_of d' ''width''"
    "map_of d ''Height'' = map_of d' ''Height''" "map_of d ''height'' = map_of d' ''height''"
    "map_of d ''Length'' = map_of d' ''Length''" "map_of d ''length'' = map_of d' ''length''"
  shows "dimensions_section L (Compound d) = dimensions_section L (Compound d')"
  unfolding dimensions_section_def get2_Compound dimension_of_def assms ..

lemma modern_reads:
  assumes "map_of d ''Palette'' = map_of d' ''Palette''"
    "map_of d ''BlockData'' = map_of d' ''BlockData''"
  shows "modern_section L (Compound d) = modern_section L (Compound d')"
  unfolding modern_section_def safe_check_Compound has_key_map_of py_getitem_Compound
    counted_reads [OF assms(2)] assms ..

lemma classic_reads:
  assumes "map_of d ''Blocks'' = map_of d' ''Blocks''"
    "map_of d ''Data'' = map_of d' ''Data''"
    "map_of d ''TileEntities'' = map_of d' ''TileEntities''"
    "map_of d ''Entities'' = map_of d' ''Entities''"
  shows "classic_section L (Compound d) = classic_section L (Compound d')"
  unfolding classic_section_def safe_check_Compound has_key_map_of py_getitem_Compound
    counted_reads [OF assms(2)] counted_reads [OF assms(3)] counted_reads [OF assms(4)]
    assms ..

lemma variant_extraction_reads_consumed:
  assumes "\<forall>k \<in> set (consumed_keys fmt). map_of d k = map_of d' k"
  shows "(if fmt = ''litematica'' then regions_section L (Compound d)
          else dimensions_section L (Compound d))
       = (if fmt = ''litematica'' then regions_section L (Compound d')
          else dimensions_section L (Compound d'))
       \<and> block_stats_section L fmt (Compound d) = block_stats_section L fmt (Compound d')"
proof -
  have a: "fmt = ''litematica'' \<Longrightarrow>
      regions_section L (Compound d) = regions_section L (Compound d')"
    using assms by (intro regions_reads) (simp add: consumed_keys_def)
  have b: "fmt \<noteq> ''litematica'' \<Longrightarrow>
      dimensions_section L (Compound d) = dimensions_section L (Compound d')"
    using assms by (intro dimensions_reads) (simp_all add: consumed_keys_def)
  have c: "startswith fmt ''modern_worldedit'' \<Longrightarrow>
      modern_section L (Compound d) = modern_section L (Compound d')"
    using assms by (intro modern_reads) (simp_all add: consumed_keys_def)
  have e: "\<not> startswith fmt ''modern_worldedit'' \<Longrightarrow> fmt = ''classic_worldedit'' \<Longrightarrow>
      classic_section L (Compound d) = classic_section L (Compound d')"
    using assms by (intro classic_reads) (simp_all add: consumed_keys_def)
  from a b c e show ?thesis
    by (simp add: block_stats_section_def)
qed

text \<open>
  C3, as amended. On a root compound the reporter, when it completes, records as
  \<open>additional_nbt_keys\<close> exactly the root keys outside the reserved set, in root order (and
  no field when there is none); it completes whenever string conversion does not raise.
  These keys and the reserved keys present make up all root keys. The keys the variant
  consumes, the residual keys and \<open>Metadata\<close> make up all root keys exactly when every
  reserved key of the root other than \<open>Metadata\<close> is one the variant consumes.
\<close>

theorem residual_keys_recorded:
  "(additional_section L (Compound d) st = (Inr (), st') \<longrightarrow>
      result st' =
        (if residual d = [] then result st
         else dict_set ''additional_nbt_keys'' (NList (map NString (residual d))) (result st)))
   \<and> (str_total L \<longrightarrow> (\<exists>s. additional_section L (Compound d) st = (Inr (), s)))
   \<and> set (residual d) = set (keys d) - set reserved
   \<and> set (keys d) = set (residual d) \<union> (set reserved \<inter> set (keys d))
   \<and> (accounted fmt d = set (keys d) \<longleftrightarrow>
        (\<forall>k \<in> set (keys d).
           k \<in> set reserved \<longrightarrow> k = ''Metadata'' \<or> k \<in> set (consumed_keys fmt)))"
proof -
  have a: "additional_section L (Compound d) st = (Inr (), st') \<longrightarrow>
      result st' =
        (if residual d = [] then result st
         else dict_set ''additional_nbt_keys'' (NList (map NString (residual d))) (result st))"
    using additional_section_result by blast
  have b: "str_total L \<longrightarrow> (\<exists>s. additional_section L (Compound d) st = (Inr (), s))"
    using additional_section_total by blast
  have c: "set (keys d) = set (residual d) \<union> (set reserved \<inter> set (keys d))"
    unfolding residual_set by blast
  from a b c residual_set accounted_complete show ?thesis
    by blast
qed

theorem residual_keys_recorded_witness:
  "accounted ''modern_worldedit''
     [(''Palette'', Compound []), (''BlockData'', NArray []), (''Width'', NInt 2),
      (''Metadata'', Compound [])]
   = {''Palette'', ''BlockData'', ''Width'', ''Metadata''}
   \<and> (\<exists>s. additional_section plain_lib
          (Compound [(''Palette'', Compound []), (''BlockData'', NArray []), (''Width'', NInt 2),
                     (''Metadata'', Compound [])])
          empty_state = (Inr (), s)
        \<and> result s = [(''additional_nbt_keys'', NList [NString ''Width''])])"
proof -
  let ?d = "[(''Palette'', Compound []), (''BlockData'', NArray []), (''Width'', NInt 2),
             (''Metadata'', Compound [])]"
  have t: "str_total plain_lib"
    by (simp add: str_total_def plain_lib_def)
  have r: "residual ?d = [''Width'']"
    by (simp add: residual_def keys_def reserved_def)
  note w = residual_keys_recorded [of plain_lib ?d empty_state _ "''modern_worldedit''"]
  from w t obtain s where s: "additional_section plain_lib (Compound ?d) empty_state = (Inr (), s)"
    by blast
  from w [of s] s r have "result s = [(''additional_nbt_keys'', NList [NString ''Width''])]"
    by (simp add: empty_state_def)
  moreover from w [of s] have "accounted ''modern_worldedit'' ?d
      = {''Palette'', ''BlockData'', ''Width'', ''Metadata''}"
    by (simp add: keys_def reserved_def consumed_keys_def startswith_def) 
  ultimately show ?thesis using s by blast
qed

text \<open>
  C3 as stated fails: a root with the single key \<open>Data\<close> is of the variant \<open>unknown\<close>, which
  consumes no block data; \<open>Data\<close> is reserved, so it is not residual either, and nothing
  accounts for it.
\<close>

theorem residual_keys_counterexample:
  "extraction plain_lib (Compound [(''Data'', NArray [])]) empty_state =
     (Inr (),
      \<lparr>result =
         [(''format'', NString ''unknown''),
          (''dimensions'',
           Compound [(''width'', NInt 0), (''height'', NInt 0), (''length'', NInt 0),
                     (''total_volume'', NInt 0)])],
       report =
         [''Format: unknown'', ''Dimensions: 0 x 0 x 0'', ''Total volume: 0 blocks'',
          CHR 0x0A # ''Additional NBT Data:'', ''  No additional NBT data found'',
          CHR 0x0A # ''=== End of analysis ==='']\<rparr>)
   \<and> accounted ''unknown'' [(''Data'', NArray [])] = {}
   \<and> set (keys [(''Data'', NArray [])]) = {''Data''}"
proof -
  have "extraction plain_lib (Compound [(''Data'', NArray [])]) empty_state =
     (Inr (),
      \<lparr>result =
         [(''format'', NString ''unknown''),
          (''dimensions'',
           Compound [(''width'', NInt 0), (''height'', NInt 0), (''length'', NInt 0),
                     (''total_volume'', NInt 0)])],
       report =
         [''Format: unknown'', ''Dimensions: 0 x 0 x 0'', ''Total volume: 0 blocks'',
          CHR 0x0A # ''Additional NBT Data:'', ''  No additional NBT data found'',
          CHR 0x0A # ''=== End of analysis ==='']\<rparr>)"
    by code_simp
  moreover have "accounted ''unknown'' [(''Data'', NArray [])] = {}"
    by (simp add: accounted_def consumed_keys_def residual_def keys_def reserved_def
        startswith_def)
  moreover have "set (keys [(''Data'', NArray [])]) = {''Data''}"
    by (simp add: keys_def)
  ultimately show ?thesis by blast
qed

lemma keepsD: "keeps k m \<Longrightarrow> m st = (r, st') \<Longrightarrow> has_key (result st') k = has_key (result st) k"
  by (simp add: keeps_def)

lemma has_key_residual: "residual d \<noteq> [] \<longleftrightarrow> (\<exists>k \<in> set (keys d). k \<notin> set reserved)"
  by (auto simp: residual_def filter_empty_conv)

lemma additional_loop_state:
  "additional_loop L s ks acc st = (r, st') \<Longrightarrow> result st' = result st"
proof (induction ks arbitrary: acc st)
  case Nil
  then show ?case by auto
next
  case (Cons k ks)
  show ?case
  proof (cases "k \<in> set reserved")
    case True
    with Cons.prems Cons.IH show ?thesis by simp
  next
    case False
    obtain r1 s1 where r1:
      "bindp (of_val (py_getitem s k)) (additional_value L k) st = (r1, s1)"
      by (cases "bindp (of_val (py_getitem s k)) (additional_value L k) st")
    then have res: "result s1 = result st"
      by (auto simp: additional_value_result split: sum.splits)
    show ?thesis
    proof (cases r1)
      case (Inl e)
      with Cons.prems False r1 res show ?thesis
        by (simp del: bindp_def)
    next
      case (Inr u)
      with Cons.prems False r1 have "additional_loop L s ks (acc @ [k]) s1 = (r, st')"
        by (simp del: bindp_def)
      from Cons.IH [OF this] res show ?thesis by simp
    qed
  qed
qed

lemma keeps_additional_loop: "keeps k (additional_loop L s ks acc)"
  by (simp add: keeps_def additional_loop_state)

lemma keeps_additional:
  "k \<noteq> ''additional_nbt_keys'' \<Longrightarrow> keeps k (additional_section L s)"
  unfolding additional_section_def
  by (intro keeps_intros keeps_additional_loop; simp)

lemma additional_section_raised:
  assumes "additional_section L (Compound d) st = (Inl e, st')"
  shows "result st' = result st"
proof -
  let ?st1 = "st\<lparr>report := report st @ [CHR 0x0A # ''Additional NBT Data:'']\<rparr>"
  obtain r1 s1 where l: "additional_loop L (Compound d) (keys d) [] ?st1 = (r1, s1)"
    by (cases "additional_loop L (Compound d) (keys d) [] ?st1")
  from additional_loop_state [OF l] have "result s1 = result st" by simp
  with assms l show ?thesis
    by (cases r1) (auto simp: additional_section_def py_keys_def split: if_splits)
qed

lemma keeps_extraction:
  "k \<notin> set extraction_fields \<Longrightarrow> keeps k (extraction L s)"
  unfolding extraction_def
  by (intro keeps_intros keeps_regions keeps_dimensions keeps_block_stats keeps_metadata
        keeps_worldedit keeps_additional;
      simp add: extraction_fields_def)

lemma steps_append:
  "steps (ms @ ns) st =
     (case steps ms st of (Inl e, s) \<Rightarrow> (Inl e, s) | (Inr _, s) \<Rightarrow> steps ns s)"
  by (induction ms arbitrary: st) (auto split: prod.splits sum.splits)

lemma steps_single: "steps [m] st = m st"
  by (cases "m st") (auto split: sum.splits)

lemma steps_emit_single: "steps [emit l, m] st = m (st\<lparr>report := report st @ [l]\<rparr>)"
proof -
  have "steps [emit l, m] st = steps [m] (st\<lparr>report := report st @ [l]\<rparr>)"
    by simp
  then show ?thesis
    by (simp only: steps_single)
qed

text \<open>
  The extraction of a root compound, whatever its outcome, from a result without the
  field: the field is there at the end exactly when the extraction ran to its end and
  some root key is outside the reserved set.
\<close>

lemma extraction_additional:
  assumes "\<not> has_key (result st) ''additional_nbt_keys''"
    and "extraction L (Compound d) st = (r, st')"
  shows "(has_key (result st') ''additional_nbt_keys'' \<longleftrightarrow> r = Inr () \<and> residual d \<noteq> [])
       \<and> (r = Inr () \<and> residual d \<noteq> [] \<longrightarrow>
            map_of (result st') ''additional_nbt_keys'' = Some (NList (map NString (residual d))))
       \<and> (r = Inr () \<and> residual d = [] \<longrightarrow>
            ''  No additional NBT data found'' \<in> set (report st'))"
proof -
  let ?k = "''additional_nbt_keys''"
  obtain fmt where fmt: "detect_format L (Compound d) = Inr fmt"
    using detect_format_Compound by blast
  let ?pre = "[emit (''Format: '' @ fmt), put ''format'' (NString fmt),
               (if fmt = ''litematica'' then regions_section L (Compound d)
                else dimensions_section L (Compound d)),
               block_stats_section L fmt (Compound d), metadata_section L (Compound d),
               worldedit_section L (Compound d)]"
  let ?post = "[additional_section L (Compound d), emit (CHR 0x0A # ''=== End of analysis ==='')]"
  have nf: "?k \<notin> set section_fields"
    by (simp add: section_fields_def)
  have kp: "keeps ?k (steps ?pre)"
    by (intro keeps_intros keeps_regions keeps_dimensions keeps_block_stats keeps_metadata
          keeps_worldedit nf; simp)
  from assms(2) fmt have run: "steps (?pre @ ?post) st = (r, st')"
    by (simp add: extraction_def)
  obtain r1 s1 where p: "steps ?pre st = (r1, s1)"
    by (cases "steps ?pre st")
  from keepsD [OF kp p] assms(1) have k1: "\<not> has_key (result s1) ?k"
    by simp
  show ?thesis
  proof (cases r1)
    case (Inl e)
    with run p have "r = Inl e" "st' = s1"
      unfolding steps_append by simp_all
    with k1 show ?thesis by simp
  next
    case (Inr u)
    with run p have post: "steps ?post s1 = (r, st')"
      unfolding steps_append by simp
    obtain r2 s2 where a: "additional_section L (Compound d) s1 = (r2, s2)"
      by (cases "additional_section L (Compound d) s1")
    show ?thesis
    proof (cases r2)
      case (Inl e)
      with post a have "r = Inl e" "st' = s2"
        by simp_all
      moreover from additional_section_raised a Inl have "result s2 = result s1"
        by blast
      ultimately show ?thesis
        using k1 by simp
    next
      case (Inr v)
      with post a have r: "r = Inr ()"
        and st': "st' = s2\<lparr>report := report s2 @ [CHR 0x0A # ''=== End of analysis ==='']\<rparr>"
        by simp_all
      from a Inr have "additional_section L (Compound d) s1 = (Inr (), s2)"
        by simp
      from additional_section_result [OF this]
      have res: "result s2 =
           (if residual d = [] then result s1
            else dict_set ?k (NList (map NString (residual d))) (result s1))"
        and l: "residual d = [] \<longrightarrow>
            report s2 = report s1 @ [CHR 0x0A # ''Additional NBT Data:'',
                                     ''  No additional NBT data found'']"
        by simp_all
      from r st' res l k1 show ?thesis
        by (auto simp: has_key_dict_set map_of_dict_set)
    qed
  qed
qed

text \<open>
  The extraction starts from the result that holds the file fields only: when the file is
  read, decompressed if need be and parsed, the analysis is the extraction of the root.
\<close>

lemma analysis_reaches_extraction:
  assumes "contents f = Inr raw"
    and "is_gzipped raw = Inr gz"
    and "if gz then gunzip L raw = Inr file_data else file_data = raw"
    and "parse L file_data = Inr (nbt_data, gzipped)"
  shows "analysis L f (initial_state f) =
           extraction L (schematic_of nbt_data) (loaded_state f gz (length file_data) gzipped)"
proof (cases gz)
  case True
  with assms have "gunzip L raw = Inr file_data" by simp
  with assms(1,2,4) True show ?thesis
    by (simp del: steps.simps add: analysis_def decompress_gzipped parse_and_extract_def
          steps_emit_single initial_state_def loaded_state_def)
next
  case False
  with assms have "file_data = raw" by simp
  with assms(1,2,4) False show ?thesis
    by (simp del: steps.simps add: analysis_def decompress_plain parse_and_extract_def
          steps_emit_single initial_state_def loaded_state_def)
qed

lemma loaded_state_fields:
  "\<not> has_key (result (loaded_state f gz n gzipped)) ''additional_nbt_keys''"
  "\<not> has_key (result (loaded_state f gz n gzipped)) ''error''"
  by (cases gz; simp add: loaded_state_def initial_state_def has_key_def keys_def)+

lemma analysis_result:
  assumes "contents f = Inr raw"
    and "is_gzipped raw = Inr gz"
    and "if gz then gunzip L raw = Inr file_data else file_data = raw"
    and "parse L file_data = Inr (nbt_data, gzipped)"
    and "extraction L (schematic_of nbt_data) (loaded_state f gz (length file_data) gzipped)
           = (r, st')"
  shows "analyze_schematic L f =
           (case r of
              Inr _ \<Rightarrow> (result st', report st')
            | Inl e \<Rightarrow>
                (dict_set ''error'' (NString (''Error analyzing file: '' @ exn_text L e))
                   (result st'),
                 report st' @ [''Error analyzing file: '' @ exn_text L e, traceback L e]))"
  using analysis_reaches_extraction [OF assms(1-4)] assms(5)
  by (simp add: analyze_schematic_def split: sum.splits)

text \<open>
  C10, as amended. For a file that is read and decodes to a root compound: the Analysis
  Result has \<open>additional_nbt_keys\<close> exactly when it has no \<open>error\<close> (the analysis ran to its
  end) and some root key is outside the reserved set, and the field is then the list of
  those keys. When no section raised and every root key is reserved, the field is omitted
  and the report has the line \<open>No additional NBT data found\<close>.
\<close>

theorem additional_keys_field:
  assumes "contents f = Inr raw"
    and "is_gzipped raw = Inr gz"
    and "if gz then gunzip L raw = Inr file_data else file_data = raw"
    and "parse L file_data = Inr (nbt_data, gzipped)"
    and "schematic_of nbt_data = Compound d"
  shows "(has_key (fst (analyze_schematic L f)) ''additional_nbt_keys'' \<longleftrightarrow>
            \<not> has_key (fst (analyze_schematic L f)) ''error''
            \<and> (\<exists>k \<in> set (keys d). k \<notin> set reserved))
       \<and> (has_key (fst (analyze_schematic L f)) ''additional_nbt_keys'' \<longrightarrow>
            map_of (fst (analyze_schematic L f)) ''additional_nbt_keys''
              = Some (NList (map NString (residual d))))
       \<and> (\<not> has_key (fst (analyze_schematic L f)) ''error''
            \<and> (\<forall>k \<in> set (keys d). k \<in> set reserved) \<longrightarrow>
            ''  No additional NBT data found'' \<in> set (snd (analyze_schematic L f)))"
proof -
  let ?st = "loaded_state f gz (length file_data) gzipped"
  obtain r st' where ex: "extraction L (Compound d) ?st = (r, st')"
    by (cases "extraction L (Compound d) ?st")
  note field = extraction_additional [OF loaded_state_fields(1) ex]
  have "''error'' \<notin> set extraction_fields"
    by (simp add: extraction_fields_def section_fields_def)
  from keepsD [OF keeps_extraction [OF this] ex] loaded_state_fields(2)
  have e1: "\<not> has_key (result st') ''error''"
    by simp
  from ex assms(5) have "extraction L (schematic_of nbt_data) ?st = (r, st')"
    by simp
  note res = analysis_result [OF assms(1-4) this]
  show ?thesis
  proof (cases r)
    case (Inl e)
    with res field show ?thesis
      by (simp add: has_key_dict_set)
  next
    case (Inr u)
    with res field e1 show ?thesis
      by (auto simp: has_key_residual)
  qed
qed

theorem additional_keys_field_witness:
  "(has_key
      (fst (analyze_schematic
         (tree_lib [(''Palette'', Compound []), (''BlockData'', NArray []), (''Version'', NInt 2)])
         sample_file))
      ''additional_nbt_keys''
    \<longleftrightarrow>
    \<not> has_key
      (fst (analyze_schematic
         (tree_lib [(''Palette'', Compound []), (''BlockData'', NArray []), (''Version'', NInt 2)])
         sample_file))
      ''error'')
   \<and> \<not> has_key
     (fst (analyze_schematic
        (tree_lib [(''Palette'', Compound []), (''BlockData'', NArray [])]) sample_file))
     ''additional_nbt_keys''"
proof -
  let ?a = "[(''Palette'', Compound []), (''BlockData'', NArray []), (''Version'', NInt 2)]"
  let ?b = "[(''Palette'', Compound []), (''BlockData'', NArray [])]"
  have c: "contents sample_file = Inr [10, 0, 0]"
    by (simp add: sample_file_def)
  have g: "is_gzipped [10, 0, 0] = Inr False"
    by (simp add: is_gzipped_two_bytes)
  have p: "if False then gunzip L [10, 0, 0] = Inr [10, 0, 0] else [10, 0, 0] = [10, 0, (0::8 word)]"
    for L
    by simp
  have pa: "parse (tree_lib ?a) [10, 0, 0] = Inr (?a, ''False'')"
    and pb: "parse (tree_lib ?b) [10, 0, 0] = Inr (?b, ''False'')"
    by (simp_all add: tree_lib_def)
  have sa: "schematic_of ?a = Compound ?a" and sb: "schematic_of ?b = Compound ?b"
    by (simp_all add: schematic_of_def)
  from additional_keys_field [OF c g p pa sa] additional_keys_field [OF c g p pb sb]
  show ?thesis
    by (simp add: keys_def reserved_def)
qed

text \<open>A run that completes, with one key outside the reserved set.\<close>

lemma extraction_additional_example:
  "map_of
     (result (snd (extraction plain_lib
        (Compound [(''Palette'', Compound []), (''BlockData'', NArray []), (''Version'', NInt 2)])
        empty_state)))
     ''additional_nbt_keys'' = Some (NList [NString ''Version''])"
proof -
  let ?b = "extraction plain_lib
      (Compound [(''Palette'', Compound []), (''BlockData'', NArray []), (''Version'', NInt 2)])
      empty_state"
  have e: "\<not> has_key (result empty_state) ''additional_nbt_keys''"
    by (simp add: empty_state_def has_key_def keys_def)
  have "fst ?b = Inr ()"
    by code_simp
  then have r: "?b = (Inr (), snd ?b)"
    by (metis prod.collapse)
  from extraction_additional [OF e r] show ?thesis
    by (simp add: keys_def reserved_def residual_def)
qed

text \<open>
  C10 as stated fails: a root with the region of C5 and a key \<open>Version\<close>. The regions
  raise, the outer handler ends the analysis, and the Result has no
  \<open>additional_nbt_keys\<close> although \<open>Version\<close> is outside the reserved set.
\<close>

theorem additional_keys_field_counterexample:
  "analyze_schematic
     (tree_lib [(''Regions'', Compound [(''A'', Compound [(''Size'', NInt 5)])]),
                (''Version'', NInt 2)])
     sample_file =
   ([(''file_name'', NString ''a.litematic''), (''file_path'', NString ''/tmp/a.litematic''),
     (''file_size'', NInt 3), (''analysis_time'', NString ''2024-01-01 00:00:00''),
     (''compression'', NString ''not gzipped''), (''format'', NString ''litematica''),
     (''regions'', Compound []),
     (''error'', NString ''Error analyzing file: <message>'')],
    [CHR 0x0A # ''=== Analyzing file: a.litematic ==='', ''File path: /tmp/a.litematic'',
     ''File size: 3 bytes'', ''File compression: not gzipped'', ''NBT format: False'',
     ''Format: litematica'', CHR 0x0A # ''Regions:'', ''  - A:'',
     ''Error analyzing file: <message>'', ''<traceback>''])"
  by code_simp

end
